theory Spec2Isabelle
  imports Main "HOL-Library.List_Lexorder" "HOL-Library.Product_Lexorder"
begin

section \<open>Daily report pipeline (core/processing.py)\<close>

text \<open>
  A shallow embedding of \<^verbatim>\<open>core/processing.py\<close>: the text helpers, the identity key,
  the per-sheet cleaning, the rollup per action key, the transition extractor and the
  eight output tables of \<^verbatim>\<open>build_week_tables_from_excel_bytes\<close>.

  What the model takes as given:
  \<^item> A Python \<^verbatim>\<open>str\<close> is a list of Unicode code points (\<open>nat\<close>). The standard
    library is written out on pure ASCII text (where NFKD is the identity, no character
    is combining and case mapping is the ASCII one); on other text its results come from
    a parameter of type \<open>pylib\<close>, as does the SHA-1 digest.
  \<^item> A workbook is the list of its sheets as \<^verbatim>\<open>xls.parse(name, header=None)\<close> returns
    them: a grid of cells, with the report date \<^verbatim>\<open>_get_date_from_raw\<close> reads from it
    (a day number, or None for NaT). A cell of the header row or of a data row is empty
    (NaN), a text, a boolean or an integer; floating point and date cells there are
    outside the model. So are sheets whose renamed header holds the same label twice:
    pandas then returns a sub-frame for the label or raises, where \<open>cell_at\<close> below
    takes the first column of that label.
  \<^item> A data frame is its list of rows; the row index is the position in the list, as
    every step of the source resets it.
  \<^item> \<^verbatim>\<open>sort_values\<close> is taken as a stable sort. On two columns it is one. On the one
    column \<^verbatim>\<open>date_rapport\<close> pandas uses quicksort, which leaves a frame that is already
    ordered by date as it is only up to 16 rows: in a larger group it may permute
    the rows of equal date, and the order of such rows in the rolled table and in the
    transitions is then not the one of the model.
  \<^item> The run is a function of the workbook as pandas reads it from the bytes, of the
    range and of the library. The temporary file the bytes go through is not modelled.
\<close>

subsection \<open>Python strings\<close>

type_synonym pystr = "nat list"

text \<open>A literal of the source, as code points.\<close>

definition lit :: "string \<Rightarrow> pystr" where
  "lit s = map of_char s"

text \<open>The part of the standard library that is not written out below.\<close>

record pylib =
  nfkd_ext :: "pystr \<Rightarrow> pystr"
    \<comment> \<open>\<^verbatim>\<open>unicodedata.normalize("NFKD", s)\<close> for \<open>s\<close> with a non-ASCII character\<close>
  combining_ext :: "nat \<Rightarrow> nat"
    \<comment> \<open>\<^verbatim>\<open>unicodedata.combining(c)\<close> for a non-ASCII \<open>c\<close>\<close>
  lower_ext :: "pystr \<Rightarrow> pystr"
    \<comment> \<open>\<^verbatim>\<open>s.lower()\<close> for \<open>s\<close> with a non-ASCII character\<close>
  upper_ext :: "pystr \<Rightarrow> pystr"
    \<comment> \<open>\<^verbatim>\<open>s.upper()\<close> for \<open>s\<close> with a non-ASCII character\<close>
  sha1_hexdigest :: "pystr \<Rightarrow> pystr"
    \<comment> \<open>\<^verbatim>\<open>hashlib.sha1(s.encode("utf-8")).hexdigest()\<close>\<close>

definition is_ascii :: "pystr \<Rightarrow> bool" where
  "is_ascii s = list_all (\<lambda>c. c < 128) s"

definition ascii_lower :: "nat \<Rightarrow> nat" where
  "ascii_lower c = (if 65 \<le> c \<and> c \<le> 90 then c + 32 else c)"

definition ascii_upper :: "nat \<Rightarrow> nat" where
  "ascii_upper c = (if 97 \<le> c \<and> c \<le> 122 then c - 32 else c)"

definition py_lower :: "pylib \<Rightarrow> pystr \<Rightarrow> pystr" where
  "py_lower L s = (if is_ascii s then map ascii_lower s else lower_ext L s)"

definition py_upper :: "pylib \<Rightarrow> pystr \<Rightarrow> pystr" where
  "py_upper L s = (if is_ascii s then map ascii_upper s else upper_ext L s)"

definition normalize_nfkd :: "pylib \<Rightarrow> pystr \<Rightarrow> pystr" where
  "normalize_nfkd L s = (if is_ascii s then s else nfkd_ext L s)"

definition combining :: "pylib \<Rightarrow> nat \<Rightarrow> nat" where
  "combining L c = (if c < 128 then 0 else combining_ext L c)"

text \<open>The characters \<^verbatim>\<open>str.split()\<close> and \<^verbatim>\<open>str.strip()\<close> treat as whitespace.\<close>

definition py_isspace :: "nat \<Rightarrow> bool" where
  "py_isspace c =
     ((9 \<le> c \<and> c \<le> 13) \<or> (28 \<le> c \<and> c \<le> 32) \<or> c = 133 \<or> c = 160 \<or> c = 5760 \<or>
      (8192 \<le> c \<and> c \<le> 8202) \<or> c = 8232 \<or> c = 8233 \<or> c = 8239 \<or> c = 8287 \<or>
      c = 12288)"

text \<open>\<^verbatim>\<open>s.split()\<close>: the maximal runs of non-whitespace, \<open>cur\<close> being the run read so far.\<close>

fun split_from :: "pystr \<Rightarrow> pystr \<Rightarrow> pystr list" where
  "split_from cur [] = (if cur = [] then [] else [cur])"
| "split_from cur (c # cs) =
     (if py_isspace c then (if cur = [] then split_from [] cs else cur # split_from [] cs)
      else split_from (cur @ [c]) cs)"

definition py_split :: "pystr \<Rightarrow> pystr list" where
  "py_split s = split_from [] s"

text \<open>\<^verbatim>\<open>sep.join(parts)\<close>\<close>

fun py_join :: "pystr \<Rightarrow> pystr list \<Rightarrow> pystr" where
  "py_join sep [] = []"
| "py_join sep [x] = x"
| "py_join sep (x # y # ys) = x @ sep @ py_join sep (y # ys)"

definition py_strip :: "pystr \<Rightarrow> pystr" where
  "py_strip s = rev (dropWhile py_isspace (rev (dropWhile py_isspace s)))"

text \<open>\<^verbatim>\<open>s.replace(a, b)\<close> for a single character \<open>a\<close>.\<close>

definition replace_char :: "nat \<Rightarrow> nat \<Rightarrow> pystr \<Rightarrow> pystr" where
  "replace_char a b s = map (\<lambda>c. if c = a then b else c) s"

definition startswith :: "pystr \<Rightarrow> pystr \<Rightarrow> bool" where
  "startswith s p = (take (length p) s = p)"

text \<open>\<^verbatim>\<open>p in s\<close> on strings.\<close>

fun contains :: "pystr \<Rightarrow> pystr \<Rightarrow> bool" where
  "contains [] p = (p = [])"
| "contains (c # cs) p = (startswith (c # cs) p \<or> contains cs p)"

text \<open>
  \<^verbatim>\<open>strip_accents_spaces\<close>. Every caller passes a \<^verbatim>\<open>str\<close>, so the two guards on
  \<^verbatim>\<open>None\<close> and on other types are not taken.
\<close>

definition strip_accents_spaces :: "pylib \<Rightarrow> pystr \<Rightarrow> pystr" where
  "strip_accents_spaces L s0 =
     (let s1 = replace_char 13 32 (replace_char 10 32 s0);
          s2 = py_join (lit '' '') (py_split s1);
          nfkd = normalize_nfkd L s2
      in filter (\<lambda>c. combining L c = 0) nfkd)"

subsection \<open>Cells\<close>

datatype cell = NaN | Text pystr | Boolean bool | Integer int

text \<open>Decimal digits of a natural number, and \<^verbatim>\<open>str(x)\<close> of a cell.\<close>

fun digits :: "nat \<Rightarrow> pystr" where
  "digits n = (if n < 10 then [48 + n] else digits (n div 10) @ [48 + n mod 10])"

declare digits.simps [simp del]

definition py_str :: "cell \<Rightarrow> pystr" where
  "py_str x =
     (case x of
        NaN \<Rightarrow> lit ''nan''
      | Text s \<Rightarrow> s
      | Boolean b \<Rightarrow> (if b then lit ''True'' else lit ''False'')
      | Integer i \<Rightarrow> (if i < 0 then lit ''-'' @ digits (nat (- i)) else digits (nat i)))"

subsection \<open>Column names and flags\<close>

text \<open>
  \<^verbatim>\<open>norm_cols\<close>: the label of one header cell, then of the header row. The tests come
  in the source's order; \<open>176\<close> is the degree sign and \<open>233\<close> the letter e with acute.
\<close>

definition norm_col :: "pylib \<Rightarrow> cell \<Rightarrow> pystr" where
  "norm_col L c =
     (let base = py_strip (strip_accents_spaces L (py_str c));
          low = py_lower L base
      in if startswith low (lit ''champ / zone'') \<or> low = lit ''champ zone'' then lit ''champ_zone''
         else if contains low (lit ''plateforme'') \<or> contains low (lit ''platerforme'') \<or>
                 contains low (lit ''plateforme/sous-zone'') then lit ''plateforme_sous_zone''
         else if startswith low (lit ''n'' @ [176] @ lit '' puits'') \<or> contains low (lit ''n puits'') \<or>
                 startswith low (lit ''n'' @ [176] @ lit ''puits'') then lit ''num_puits''
         else if contains low (lit ''tag equipement'') \<or> low = lit ''tag'' \<or>
                 contains low (lit ''tag '' @ [233] @ lit ''quipement'') then lit ''tag_equipement''
         else if contains low (lit ''sous-equipement'') \<or> contains low (lit ''sous equipement'') \<or>
                 contains low (lit ''sous- equipement'') then lit ''sous_equipement''
         else if low = lit ''indisponible'' then lit ''indisponible''
         else if low \<in> set [lit ''metier'', lit ''m'' @ [233] @ lit ''tier''] then lit ''metier''
         else if contains low (lit ''travail effectue'') \<and> contains low (lit ''commentaires'')
              then lit ''travaux_commentaires''
         else if startswith low (lit ''termine'') \<or> contains low (lit ''termin'' @ [233])
              then lit ''termine''
         else if startswith low (lit ''en cours'') then lit ''en_cours''
         else if startswith low (lit ''report'') \<or> startswith low (lit '' reporte'') then lit ''reporte''
         else low)"

definition norm_cols :: "pylib \<Rightarrow> cell list \<Rightarrow> pystr list" where
  "norm_cols L cols = map (norm_col L) cols"

text \<open>
  \<^verbatim>\<open>to_bool\<close>, on one value. The columns of a parsed sheet have dtype object (each
  holds its header text), so the shortcut for a bool dtype is not taken.
\<close>

definition truthy :: "pystr list" where
  "truthy = [lit ''1'', lit ''true'', lit ''vrai'', lit ''oui'', lit ''yes'', lit ''y'', lit ''t'', lit ''x'']"

definition to_bool :: "pylib \<Rightarrow> cell \<Rightarrow> bool" where
  "to_bool L x = (py_lower L (py_strip (py_str x)) \<in> set truthy)"

subsection \<open>The identity key\<close>

text \<open>The seven descriptive columns, in the order the source lists them.\<close>

definition desc_cols :: "pystr list" where
  "desc_cols = [lit ''champ_zone'', lit ''plateforme_sous_zone'', lit ''num_puits'',
     lit ''tag_equipement'', lit ''sous_equipement'', lit ''metier'', lit ''travaux_commentaires'']"

text \<open>\<^verbatim>\<open>row.get(k, d)\<close> on a row given as a map from column labels to values.\<close>

definition row_get :: "(pystr \<rightharpoonup> 'a) \<Rightarrow> pystr \<Rightarrow> 'a \<Rightarrow> 'a" where
  "row_get row k d = (case row k of None \<Rightarrow> d | Some v \<Rightarrow> v)"

text \<open>
  \<^verbatim>\<open>_action_key\<close>. The row is the data frame's row when the key is computed: its
  descriptive columns, where the sheet has them, hold texts, so \<^verbatim>\<open>str\<close> leaves them as
  they are. \<open>action_payload\<close> is the local \<^verbatim>\<open>payload\<close>.
\<close>

definition action_payload :: "pylib \<Rightarrow> (pystr \<rightharpoonup> pystr) \<Rightarrow> pystr" where
  "action_payload L row =
     (let parts = map (\<lambda>c. py_lower L (strip_accents_spaces L (row_get row c []))) desc_cols
      in py_join (lit ''||'') parts)"

definition action_key_of :: "pylib \<Rightarrow> (pystr \<rightharpoonup> pystr) \<Rightarrow> pystr" where
  "action_key_of L row = sha1_hexdigest L (action_payload L row)"

subsection \<open>Tables\<close>

text \<open>
  The rows of the output tables. A descriptive field is None where the frame holds NaN:
  the sheet of the row had no such column. \<open>date_rapport\<close> is None for NaT.
\<close>

record keyed_row =
  action_key :: pystr
  date_rapport :: "int option"

record flag_row = keyed_row +
  termine :: bool
  en_cours :: bool
  reporte :: bool

record event_row = flag_row +
  change_desc :: pystr

record latest_row = flag_row +
  champ_zone :: "pystr option"
  plateforme_sous_zone :: "pystr option"
  num_puits :: "pystr option"
  tag_equipement :: "pystr option"
  sous_equipement :: "pystr option"
  metier :: "pystr option"
  travaux_commentaires :: "pystr option"

record daily_row = latest_row +
  indisponible :: bool
  feuille :: pystr

record rolled_row = daily_row +
  en_cours_ff :: bool
  reporte_ff :: bool
  termine_seen :: bool
  termine_final :: bool
  en_cours_final :: bool
  reporte_final :: bool

record tables =
  actions_daily :: "daily_row list"
  actions_consistent :: "daily_row list"
  actions_latest :: "latest_row list"
  ended_actions :: "latest_row list"
  running_actions :: "latest_row list"
  postponed_actions :: "latest_row list"
  equipment_downtime :: "daily_row list"
  transitions :: "event_row list"

subsection \<open>Reading and cleaning the sheets\<close>

record sheet =
  sheet_name :: pystr
  date_cell :: "int option"  \<comment> \<open>what \<^verbatim>\<open>_get_date_from_raw\<close> returns for the sheet\<close>
  grid :: "cell list list"  \<comment> \<open>\<^verbatim>\<open>xls.parse(sheet_name, header=None)\<close>\<close>

datatype error =
    InvalidSheetRange int int nat
      \<comment> \<open>ValueError: Plage de feuilles invalide (start-end) pour total feuilles disponibles\<close>
  | IndexError
      \<comment> \<open>\<^verbatim>\<open>df_raw.iloc[4]\<close> on a sheet of fewer than five rows\<close>
  | NoUsableSheets
      \<comment> \<open>ValueError: No usable sheets in the selected range.\<close>
  | NoDates
      \<comment> \<open>ValueError: Aucune date trouvee dans les feuilles selectionnees\<close>

text \<open>The value of column \<open>c\<close> in a row of a frame whose columns are \<open>cols\<close>.\<close>

definition cell_at :: "pystr list \<Rightarrow> cell list \<Rightarrow> pystr \<Rightarrow> cell" where
  "cell_at cols r c = (case map_of (zip cols r) c of None \<Rightarrow> NaN | Some v \<Rightarrow> v)"

definition strip_col :: "pylib \<Rightarrow> cell \<Rightarrow> pystr" where
  "strip_col L x = py_upper L (strip_accents_spaces L (py_str x))"

text \<open>
  \<^verbatim>\<open>_get_prevision_index\<close>: the source returns \<^verbatim>\<open>False\<close> or an integer and its caller
  tests \<^verbatim>\<open>idx_prev is not False\<close>; None stands for \<^verbatim>\<open>False\<close>, so that index 0 is
  Some 0.
\<close>

definition get_prevision_index :: "pylib \<Rightarrow> pystr list \<Rightarrow> cell list list \<Rightarrow> nat option" where
  "get_prevision_index L cols df =
     (if lit ''champ_zone'' \<notin> set cols then None
      else let mask = map (\<lambda>r. strip_col L (cell_at cols r (lit ''champ_zone'')) = lit ''PREVISION'') df;
               idx = filter (\<lambda>i. mask ! i) [0..<length df]
           in if idx \<noteq> [] then Some (hd idx) else None)"

text \<open>
  The body of the loop over the rows of one sheet, after the sentinel cut: the four
  flags, the date and sheet label, the normalised texts and the key.
\<close>

definition flag_of :: "pylib \<Rightarrow> pystr list \<Rightarrow> cell list \<Rightarrow> pystr \<Rightarrow> bool" where
  "flag_of L cols r c = (if c \<in> set cols then to_bool L (cell_at cols r c) else False)"

definition text_of :: "pylib \<Rightarrow> pystr list \<Rightarrow> cell list \<Rightarrow> pystr \<rightharpoonup> pystr" where
  "text_of L cols r c =
     (if c \<in> set desc_cols \<and> c \<in> set cols
      then Some (strip_accents_spaces L
                  (let x = py_str (cell_at cols r c) in if x = lit ''nan'' then [] else x))
      else None)"

definition clean_row :: "pylib \<Rightarrow> sheet \<Rightarrow> pystr list \<Rightarrow> cell list \<Rightarrow> daily_row" where
  "clean_row L sh cols r =
     \<lparr> action_key = action_key_of L (text_of L cols r),
       date_rapport = date_cell sh,
       termine = flag_of L cols r (lit ''termine''),
       en_cours = flag_of L cols r (lit ''en_cours''),
       reporte = flag_of L cols r (lit ''reporte''),
       champ_zone = text_of L cols r (lit ''champ_zone''),
       plateforme_sous_zone = text_of L cols r (lit ''plateforme_sous_zone''),
       num_puits = text_of L cols r (lit ''num_puits''),
       tag_equipement = text_of L cols r (lit ''tag_equipement''),
       sous_equipement = text_of L cols r (lit ''sous_equipement''),
       metier = text_of L cols r (lit ''metier''),
       travaux_commentaires = text_of L cols r (lit ''travaux_commentaires''),
       indisponible = flag_of L cols r (lit ''indisponible''),
       feuille = sheet_name sh \<rparr>"

text \<open>
  \<^verbatim>\<open>non_empty\<close>: some descriptive column of the sheet holds more than whitespace in
  the row. The columns the sheet lacks are the fields that are None.
\<close>

definition non_empty :: "daily_row \<Rightarrow> bool" where
  "non_empty r =
     list_ex (\<lambda>x. py_strip x \<noteq> [])
       (concat (map (\<lambda>f. case f r of None \<Rightarrow> [] | Some x \<Rightarrow> [x])
          [champ_zone, plateforme_sous_zone, num_puits, tag_equipement, sous_equipement,
           metier, travaux_commentaires]))"

text \<open>
  One turn of the loop of \<^verbatim>\<open>_clean_week_sheets_from_bytes\<close>: None when the sheet is
  skipped (\<^verbatim>\<open>continue\<close>), else the frame appended to \<^verbatim>\<open>final_dfs\<close>.
\<close>

definition clean_sheet :: "pylib \<Rightarrow> sheet \<Rightarrow> error + daily_row list option" where
  "clean_sheet L sh =
     (if length (grid sh) \<le> 4 then Inl IndexError
      else let cols = norm_cols L (grid sh ! 4);
               df0 = drop 5 (grid sh)
           in if lit ''champ_zone'' \<notin> set cols then Inr None
              else let df1 = filter (\<lambda>r. cell_at cols r (lit ''champ_zone'') \<noteq> NaN) df0;
                       df2 = (case get_prevision_index L cols df1 of
                                None \<Rightarrow> df1
                              | Some idx_prev \<Rightarrow> take idx_prev df1);
                       df3 = map (clean_row L sh cols) df2
                   in Inr (Some (filter non_empty df3)))"

text \<open>The loop, over the sheets in range: the frames and the dates collected.\<close>

fun clean_loop :: "pylib \<Rightarrow> sheet list \<Rightarrow> error + (daily_row list list \<times> int option list)" where
  "clean_loop L [] = Inr ([], [])"
| "clean_loop L (sh # shs) =
     (case clean_sheet L sh of
        Inl e \<Rightarrow> Inl e
      | Inr fr \<Rightarrow>
          (case clean_loop L shs of
             Inl e \<Rightarrow> Inl e
           | Inr (final_dfs, dates) \<Rightarrow>
               Inr ((case fr of None \<Rightarrow> final_dfs | Some df \<Rightarrow> df # final_dfs),
                    date_cell sh # dates)))"

text \<open>
  \<^verbatim>\<open>_clean_week_sheets_from_bytes\<close>, on the workbook's sheets. Past the range check
  \<open>1 \<le> start_sheet\<close>, so \<^verbatim>\<open>range(start_sheet - 1, end_sheet)\<close> is the interval of naturals
  below; it is empty when \<open>end_sheet < start_sheet\<close>.
\<close>

definition sheets_in_range :: "sheet list \<Rightarrow> int \<Rightarrow> int \<Rightarrow> sheet list" where
  "sheets_in_range wb start_sheet end_sheet =
     map (\<lambda>i. wb ! i) [nat (start_sheet - 1)..<nat end_sheet]"

definition clean_week_sheets_from_bytes ::
  "pylib \<Rightarrow> sheet list \<Rightarrow> int \<Rightarrow> int \<Rightarrow> error + (daily_row list list \<times> int option list)" where
  "clean_week_sheets_from_bytes L wb start_sheet end_sheet =
     (let total_sheets = length wb
      in if start_sheet < 1 \<or> end_sheet > int total_sheets
         then Inl (InvalidSheetRange start_sheet end_sheet total_sheets)
         else clean_loop L (sheets_in_range wb start_sheet end_sheet))"

subsection \<open>Column operations\<close>

text \<open>
  A nullable boolean column is a list of options. \<^verbatim>\<open>fillna\<close>, \<^verbatim>\<open>ffill\<close> (the last
  value seen is carried over the gaps), \<^verbatim>\<open>cummax\<close> on booleans and \<^verbatim>\<open>shift(1)\<close>.
\<close>

definition fillna :: "'a \<Rightarrow> 'a option \<Rightarrow> 'a" where
  "fillna d x = (case x of None \<Rightarrow> d | Some v \<Rightarrow> v)"

fun ffill_from :: "'a option \<Rightarrow> 'a option list \<Rightarrow> 'a option list" where
  "ffill_from seen [] = []"
| "ffill_from seen (None # xs) = seen # ffill_from seen xs"
| "ffill_from seen (Some v # xs) = Some v # ffill_from (Some v) xs"

definition ffill :: "'a option list \<Rightarrow> 'a option list" where
  "ffill xs = ffill_from None xs"

fun cummax_from :: "bool \<Rightarrow> bool list \<Rightarrow> bool list" where
  "cummax_from acc [] = []"
| "cummax_from acc (x # xs) = (acc \<or> x) # cummax_from (acc \<or> x) xs"

definition cummax :: "bool list \<Rightarrow> bool list" where
  "cummax xs = cummax_from False xs"

definition shift1 :: "'a list \<Rightarrow> 'a option list" where
  "shift1 xs = (if xs = [] then [] else None # map Some (butlast xs))"

text \<open>\<^verbatim>\<open>astype("boolean").fillna(False).astype(bool)\<close> on a column of booleans.\<close>

definition as_bool :: "bool list \<Rightarrow> bool list" where
  "as_bool xs = map (fillna False) (map Some xs)"

text \<open>
  The sort keys. \<^verbatim>\<open>sort_values\<close> puts NaT last; \<open>sort_key\<close> is the stable insertion
  sort of the list library.
\<close>

definition date_key :: "int option \<Rightarrow> nat \<times> int" where
  "date_key d = (case d of Some x \<Rightarrow> (0, x) | None \<Rightarrow> (1, 0))"

definition sort_by_date :: "'a keyed_row_scheme list \<Rightarrow> 'a keyed_row_scheme list" where
  "sort_by_date df = sort_key (\<lambda>r. date_key (date_rapport r)) df"

definition sort_by_key_date :: "'a keyed_row_scheme list \<Rightarrow> 'a keyed_row_scheme list" where
  "sort_by_key_date df = sort_key (\<lambda>r. (action_key r, date_key (date_rapport r))) df"

text \<open>
  \<^verbatim>\<open>groupby("action_key")\<close>: one group per key, the keys ascending, each group in the
  order of the frame. \<^verbatim>\<open>groupby(...).tail(1)\<close>: the rows that are the last of their key,
  in the order of the frame.
\<close>

definition groupby_action_key :: "'a keyed_row_scheme list \<Rightarrow> 'a keyed_row_scheme list list" where
  "groupby_action_key df =
     map (\<lambda>k. filter (\<lambda>r. action_key r = k) df) (sort (remdups (map action_key df)))"

fun groupby_tail1 :: "'a keyed_row_scheme list \<Rightarrow> 'a keyed_row_scheme list" where
  "groupby_tail1 [] = []"
| "groupby_tail1 (r # rs) =
     (if list_ex (\<lambda>r'. action_key r' = action_key r) rs then groupby_tail1 rs
      else r # groupby_tail1 rs)"

subsection \<open>Rollup, transitions and the output tables\<close>

text \<open>
  \<^verbatim>\<open>_rollup\<close> on the rows of one key. The columns are computed as in the source and
  put back together row by row; all have the length of the group.
\<close>

definition rollup :: "daily_row list \<Rightarrow> rolled_row list" where
  "rollup grp =
     (let g = sort_by_date grp;
          termine_c = as_bool (map termine g);
          en_cours_c = as_bool (map en_cours g);
          reporte_c = as_bool (map reporte g);
          en_cours_ff_c = map (fillna False) (ffill (map Some en_cours_c));
          reporte_ff_c = map (fillna False) (ffill (map Some reporte_c));
          termine_seen_c = cummax (as_bool termine_c);
          termine_final_c = termine_seen_c;
          en_cours_final_c =
            map (\<lambda>i. if termine_final_c ! i then False else en_cours_ff_c ! i) [0..<length g];
          reporte_final_c =
            map (\<lambda>i. if termine_final_c ! i then False else reporte_ff_c ! i) [0..<length g]
      in map (\<lambda>i.
           \<lparr> action_key = action_key (g ! i),
             date_rapport = date_rapport (g ! i),
             termine = termine_c ! i,
             en_cours = en_cours_c ! i,
             reporte = reporte_c ! i,
             champ_zone = champ_zone (g ! i),
             plateforme_sous_zone = plateforme_sous_zone (g ! i),
             num_puits = num_puits (g ! i),
             tag_equipement = tag_equipement (g ! i),
             sous_equipement = sous_equipement (g ! i),
             metier = metier (g ! i),
             travaux_commentaires = travaux_commentaires (g ! i),
             indisponible = indisponible (g ! i),
             feuille = feuille (g ! i),
             en_cours_ff = en_cours_ff_c ! i,
             reporte_ff = reporte_ff_c ! i,
             termine_seen = termine_seen_c ! i,
             termine_final = termine_final_c ! i,
             en_cours_final = en_cours_final_c ! i,
             reporte_final = reporte_final_c ! i \<rparr>) [0..<length g])"

text \<open>\<^verbatim>\<open>_desc\<close>: one message per flag that changed, joined by a semicolon.\<close>

definition bool_str :: "bool \<Rightarrow> pystr" where
  "bool_str b = (if b then lit ''True'' else lit ''False'')"

definition change_msg :: "string \<Rightarrow> bool \<Rightarrow> bool \<Rightarrow> pystr" where
  "change_msg name prev cur = lit name @ lit '': '' @ bool_str prev @ lit '' -> '' @ bool_str cur"

definition desc :: "bool \<Rightarrow> bool \<Rightarrow> bool \<Rightarrow> bool \<Rightarrow> bool \<Rightarrow> bool \<Rightarrow> pystr" where
  "desc t_prev t e_prev e r_prev r =
     py_join (lit ''; '')
       ((if t \<noteq> t_prev then [change_msg ''termine'' t_prev t] else []) @
        (if e \<noteq> e_prev then [change_msg ''en_cours'' e_prev e] else []) @
        (if r \<noteq> r_prev then [change_msg ''reporte'' r_prev r] else []))"

text \<open>
  \<^verbatim>\<open>_transitions\<close> on the rolled rows of one key: the rows where a final flag differs
  from the row before, the first row being compared with all-false.
\<close>

definition transitions_of :: "rolled_row list \<Rightarrow> event_row list" where
  "transitions_of sub =
     (let g = sort_by_date sub;
          t = as_bool (map termine_final g);
          e = as_bool (map en_cours_final g);
          r = as_bool (map reporte_final g);
          t_prev = map (fillna False) (shift1 t);
          e_prev = map (fillna False) (shift1 e);
          r_prev = map (fillna False) (shift1 r);
          changed = filter (\<lambda>i. t ! i \<noteq> t_prev ! i \<or> e ! i \<noteq> e_prev ! i \<or> r ! i \<noteq> r_prev ! i)
                      [0..<length g]
      in map (\<lambda>i.
           \<lparr> action_key = action_key (g ! i),
             date_rapport = date_rapport (g ! i),
             termine = t ! i,
             en_cours = e ! i,
             reporte = r ! i,
             change_desc = desc (t_prev ! i) (t ! i) (e_prev ! i) (e ! i) (r_prev ! i) (r ! i) \<rparr>)
           changed)"

text \<open>The columns kept for \<^verbatim>\<open>actions_latest\<close> and \<^verbatim>\<open>actions_consistent\<close>, the final
  flags under the names of the raw ones.\<close>

definition latest_of :: "rolled_row \<Rightarrow> latest_row" where
  "latest_of x =
     \<lparr> action_key = action_key x,
       date_rapport = date_rapport x,
       termine = termine_final x,
       en_cours = en_cours_final x,
       reporte = reporte_final x,
       champ_zone = champ_zone x,
       plateforme_sous_zone = plateforme_sous_zone x,
       num_puits = num_puits x,
       tag_equipement = tag_equipement x,
       sous_equipement = sous_equipement x,
       metier = metier x,
       travaux_commentaires = travaux_commentaires x \<rparr>"

definition consistent_of :: "rolled_row \<Rightarrow> daily_row" where
  "consistent_of x =
     \<lparr> action_key = action_key x,
       date_rapport = date_rapport x,
       termine = termine_final x,
       en_cours = en_cours_final x,
       reporte = reporte_final x,
       champ_zone = champ_zone x,
       plateforme_sous_zone = plateforme_sous_zone x,
       num_puits = num_puits x,
       tag_equipement = tag_equipement x,
       sous_equipement = sous_equipement x,
       metier = metier x,
       travaux_commentaires = travaux_commentaires x,
       indisponible = indisponible x,
       feuille = feuille x \<rparr>"

text \<open>
  The tables built from a daily table that passed the two checks, and
  \<^verbatim>\<open>build_week_tables_from_excel_bytes\<close>. \<open>rolled_of\<close> is the local \<^verbatim>\<open>rolled\<close>. The
  calls of \<^verbatim>\<open>groupby\<close> with \<^verbatim>\<open>include_groups\<close> raise TypeError, so the fallbacks run.
\<close>

definition rolled_of :: "daily_row list \<Rightarrow> rolled_row list" where
  "rolled_of daily = concat (map rollup (groupby_action_key (sort_by_key_date daily)))"

definition tables_of :: "daily_row list \<Rightarrow> tables" where
  "tables_of daily =
     (let rolled = rolled_of daily;
          latest = map latest_of (groupby_tail1 (sort_by_key_date rolled))
      in \<lparr> actions_daily = daily,
           actions_consistent = map consistent_of rolled,
           actions_latest = latest,
           ended_actions = filter termine latest,
           running_actions = filter (\<lambda>x. \<not> termine x \<and> en_cours x) latest,
           postponed_actions = filter (\<lambda>x. \<not> termine x \<and> reporte x) latest,
           equipment_downtime = filter indisponible daily,
           transitions = concat (map transitions_of (groupby_action_key rolled)) \<rparr>)"

definition build_week_tables_from_excel_bytes ::
  "pylib \<Rightarrow> sheet list \<Rightarrow> int \<Rightarrow> int \<Rightarrow> error + tables" where
  "build_week_tables_from_excel_bytes L wb start_sheet end_sheet =
     (case clean_week_sheets_from_bytes L wb start_sheet end_sheet of
        Inl err \<Rightarrow> Inl err
      | Inr (daily_frames, dates) \<Rightarrow>
          if daily_frames = [] then Inl NoUsableSheets
          else let daily = concat daily_frames
               in if list_all (\<lambda>x. date_rapport x = None) daily then Inl NoDates
                  else Inr (tables_of daily))"

section \<open>Auxiliary definitions\<close>

subsection \<open>The descriptive fields of a row\<close>

definition desc_fields :: "'a latest_row_scheme \<Rightarrow> pystr option list" where
  "desc_fields x = [champ_zone x, plateforme_sous_zone x, num_puits x, tag_equipement x,
     sous_equipement x, metier x, travaux_commentaires x]"


subsection \<open>Rollup and transitions as one pass\<close>

text \<open>
  The rolled row of a daily row, given whether \<open>termine\<close> was seen up to and including it,
  and the rollup of a date-ordered group as a scan that carries this flag.
\<close>

definition rolled_of_row :: "daily_row \<Rightarrow> bool \<Rightarrow> rolled_row" where
  "rolled_of_row x seen =
     \<lparr> action_key = action_key x, date_rapport = date_rapport x,
       termine = termine x, en_cours = en_cours x, reporte = reporte x,
       champ_zone = champ_zone x, plateforme_sous_zone = plateforme_sous_zone x,
       num_puits = num_puits x, tag_equipement = tag_equipement x,
       sous_equipement = sous_equipement x, metier = metier x,
       travaux_commentaires = travaux_commentaires x,
       indisponible = indisponible x, feuille = feuille x,
       en_cours_ff = en_cours x, reporte_ff = reporte x,
       termine_seen = seen, termine_final = seen,
       en_cours_final = (\<not> seen \<and> en_cours x), reporte_final = (\<not> seen \<and> reporte x) \<rparr>"

fun rollup_scan :: "bool \<Rightarrow> daily_row list \<Rightarrow> rolled_row list" where
  "rollup_scan acc [] = []"
| "rollup_scan acc (x # xs) = rolled_of_row x (acc \<or> termine x) # rollup_scan (acc \<or> termine x) xs"

text \<open>A column of booleans that stays true once it is true.\<close>

fun latched :: "bool list \<Rightarrow> bool" where
  "latched [] = True"
| "latched (x # xs) = ((x \<longrightarrow> list_all id xs) \<and> latched xs)"

text \<open>
  The event of a rolled row, given the final flags of the row before, and the
  transitions of a date-ordered group as a scan that carries these flags.
\<close>

definition event_of :: "rolled_row \<Rightarrow> bool \<Rightarrow> bool \<Rightarrow> bool \<Rightarrow> event_row" where
  "event_of x tp ep rp =
     \<lparr> action_key = action_key x, date_rapport = date_rapport x,
       termine = termine_final x, en_cours = en_cours_final x, reporte = reporte_final x,
       change_desc = desc tp (termine_final x) ep (en_cours_final x) rp (reporte_final x) \<rparr>"

fun transitions_scan :: "bool \<Rightarrow> bool \<Rightarrow> bool \<Rightarrow> rolled_row list \<Rightarrow> event_row list" where
  "transitions_scan tp ep rp [] = []"
| "transitions_scan tp ep rp (x # xs) =
     (if termine_final x \<noteq> tp \<or> en_cours_final x \<noteq> ep \<or> reporte_final x \<noteq> rp
      then [event_of x tp ep rp] else [])
     @ transitions_scan (termine_final x) (en_cours_final x) (reporte_final x) xs"

subsection \<open>Example workbooks\<close>

text \<open>
  A library for the examples: the letter e with acute (233, upper case 201) decomposes
  into the letter and the combining acute accent 769; the digest is the payload itself,
  so that equal keys are equal payloads.
\<close>

definition demo_lib :: pylib where
  "demo_lib =
     \<lparr> nfkd_ext = (\<lambda>s. concat (map (\<lambda>c. if c = 233 then [101, 769] else if c = 201 then [69, 769] else [c]) s)),
       combining_ext = (\<lambda>c. if c = 769 then 230 else 0),
       lower_ext = map (\<lambda>c. if c = 201 then 233 else ascii_lower c),
       upper_ext = map (\<lambda>c. if c = 233 then 201 else ascii_upper c),
       sha1_hexdigest = id \<rparr>"

text \<open>
  Sheets with the header on the fifth row, a zone column and the four flag columns;
  \<open>demo_fact\<close> is the daily row such a sheet gives for one of its rows.
\<close>

definition demo_header :: "cell list" where
  "demo_header = [Text (lit ''Champ / Zone''), Text (lit ''Termine''), Text (lit ''En cours''),
     Text (lit ''Reporte''), Text (lit ''Indisponible'')]"

definition blank_row :: "cell list" where
  "blank_row = [NaN, NaN, NaN, NaN, NaN]"

definition demo_sheet :: "string \<Rightarrow> int option \<Rightarrow> cell list list \<Rightarrow> sheet" where
  "demo_sheet name d rows =
     \<lparr> sheet_name = lit name, date_cell = d,
       grid = [blank_row, blank_row, blank_row, blank_row, demo_header] @ rows \<rparr>"

definition demo_row :: "string \<Rightarrow> bool \<Rightarrow> bool \<Rightarrow> bool \<Rightarrow> bool \<Rightarrow> cell list" where
  "demo_row zone t e r i = [Text (lit zone), Boolean t, Boolean e, Boolean r, Boolean i]"

definition demo_cols :: "pystr list" where
  "demo_cols = [lit ''champ_zone'', lit ''termine'', lit ''en_cours'', lit ''reporte'', lit ''indisponible'']"

definition norm_zone :: "pylib \<Rightarrow> string \<Rightarrow> pystr" where
  "norm_zone L z = strip_accents_spaces L (if lit z = lit ''nan'' then [] else lit z)"

definition demo_key :: "pylib \<Rightarrow> string \<Rightarrow> pystr" where
  "demo_key L zone =
     sha1_hexdigest L (py_lower L (strip_accents_spaces L (norm_zone L zone)) @ lit ''||||||||||||'')"

definition demo_fact :: "pylib \<Rightarrow> string \<Rightarrow> int option \<Rightarrow> string \<Rightarrow> bool \<Rightarrow> bool \<Rightarrow> bool \<Rightarrow> bool \<Rightarrow> daily_row" where
  "demo_fact L name d zone t e r i =
     \<lparr> action_key = demo_key L zone,
       date_rapport = d, termine = t, en_cours = e, reporte = r,
       champ_zone = Some (norm_zone L zone), plateforme_sous_zone = None, num_puits = None,
       tag_equipement = None, sous_equipement = None, metier = None,
       travaux_commentaires = None, indisponible = i, feuille = lit name \<rparr>"

text \<open>A sheet with a zone and a platform column and two rows, for the key's separator.\<close>

definition key_cols :: "pystr list" where
  "key_cols = [lit ''champ_zone'', lit ''plateforme_sous_zone'']"

definition collide_row1 :: "cell list" where
  "collide_row1 = [Text (lit ''a||b''), Text (lit ''c'')]"

definition collide_row2 :: "cell list" where
  "collide_row2 = [Text (lit ''a''), Text (lit ''b||c'')]"

definition collide_sheet :: sheet where
  "collide_sheet = \<lparr> sheet_name = lit ''S1'', date_cell = Some 1,
     grid = [[NaN, NaN], [NaN, NaN], [NaN, NaN], [NaN, NaN],
             [Text (lit ''Champ / Zone''), Text (lit ''Plateforme'')],
             collide_row1, collide_row2] \<rparr>"

text \<open>Workbooks of two daily sheets for one action, with the daily tables they give.\<close>

definition wb_flip :: "sheet list" where
  "wb_flip = [demo_sheet ''S1'' (Some 1) [demo_row ''A'' False True False False],
              demo_sheet ''S2'' (Some 2) [demo_row ''A'' True False False False]]"

definition daily_flip :: "daily_row list" where
  "daily_flip = [demo_fact demo_lib ''S1'' (Some 1) ''A'' False True False False,
                 demo_fact demo_lib ''S2'' (Some 2) ''A'' True False False False]"

definition wb_both :: "sheet list" where
  "wb_both = [demo_sheet ''S1'' (Some 1) [demo_row ''A'' False True True False],
              demo_sheet ''S2'' (Some 2) [demo_row ''A'' True True True False]]"

definition daily_both :: "daily_row list" where
  "daily_both = [demo_fact demo_lib ''S1'' (Some 1) ''A'' False True True False,
                 demo_fact demo_lib ''S2'' (Some 2) ''A'' True True True False]"

text \<open>
  One action with the same flags on both days, in progress or all flags false; an action
  out of service on days 1 and 3 and absent on day 2, where another action is reported.
\<close>

definition wb_steady :: "sheet list" where
  "wb_steady = [demo_sheet ''S1'' (Some 1) [demo_row ''A'' False True False False],
                demo_sheet ''S2'' (Some 2) [demo_row ''A'' False True False False]]"

definition daily_steady :: "daily_row list" where
  "daily_steady = [demo_fact demo_lib ''S1'' (Some 1) ''A'' False True False False,
                   demo_fact demo_lib ''S2'' (Some 2) ''A'' False True False False]"

definition wb_idle :: "sheet list" where
  "wb_idle = [demo_sheet ''S1'' (Some 1) [demo_row ''A'' False False False False],
              demo_sheet ''S2'' (Some 2) [demo_row ''A'' False False False False]]"

definition daily_idle :: "daily_row list" where
  "daily_idle = [demo_fact demo_lib ''S1'' (Some 1) ''A'' False False False False,
                 demo_fact demo_lib ''S2'' (Some 2) ''A'' False False False False]"

definition wb_down :: "sheet list" where
  "wb_down = [demo_sheet ''S1'' (Some 1) [demo_row ''A'' False False False True],
              demo_sheet ''S2'' (Some 2) [demo_row ''B'' False True False False],
              demo_sheet ''S3'' (Some 3) [demo_row ''A'' False False False True]]"

definition daily_down :: "daily_row list" where
  "daily_down = [demo_fact demo_lib ''S1'' (Some 1) ''A'' False False False True,
                 demo_fact demo_lib ''S2'' (Some 2) ''B'' False True False False,
                 demo_fact demo_lib ''S3'' (Some 3) ''A'' False False False True]"

text \<open>
  A sheet whose header has no zone column, a sheet with no report date, a sheet with no
  data row.
\<close>

definition zone_header :: "cell list" where
  "zone_header = [Text (lit ''Zone''), Text (lit ''Termine''), Text (lit ''En cours''),
     Text (lit ''Reporte''), Text (lit ''Indisponible'')]"

definition wb_nozone :: "sheet list" where
  "wb_nozone = [\<lparr> sheet_name = lit ''S1'', date_cell = Some 1,
     grid = [blank_row, blank_row, blank_row, blank_row, zone_header,
             demo_row ''A'' False True False False] \<rparr>]"

definition wb_undated :: "sheet list" where
  "wb_undated = [demo_sheet ''S1'' None [demo_row ''A'' False True False False]]"

definition wb_blank :: "sheet list" where
  "wb_blank = [demo_sheet ''S1'' (Some 1) []]"

text \<open>A sheet of fewer than five rows, which cannot be parsed.\<close>

definition wb_short :: "sheet list" where
  "wb_short = [\<lparr> sheet_name = lit ''S1'', date_cell = None, grid = [] \<rparr>]"

text \<open>A row whose zone is the sentinel, in lower case with its accent.\<close>

definition sentinel_row :: "cell list" where
  "sentinel_row = [Text (lit ''Pr'' @ [233] @ lit ''vision''), Boolean False, Boolean True,
     Boolean False, Boolean False]"

subsection \<open>Predicates and values of the statements\<close>

text \<open>The test \<^verbatim>\<open>_get_prevision_index\<close> makes on the zone of a row.\<close>

definition is_prevision :: "pylib \<Rightarrow> pystr list \<Rightarrow> cell list \<Rightarrow> bool" where
  "is_prevision L cols r = (strip_col L (cell_at cols r (lit ''champ_zone'')) = lit ''PREVISION'')"

text \<open>
  The event the extractor emits for the first row of a key whose raw flags are
  \<open>t0\<close>, \<open>e0\<close>, \<open>r0\<close>: the final flags of the row against all-false.
\<close>

definition first_event :: "pystr \<Rightarrow> int option \<Rightarrow> bool \<Rightarrow> bool \<Rightarrow> bool \<Rightarrow> event_row" where
  "first_event k d t0 e0 r0 =
     \<lparr> action_key = k, date_rapport = d, termine = t0, en_cours = (\<not> t0 \<and> e0),
       reporte = (\<not> t0 \<and> r0),
       change_desc = desc False t0 False (\<not> t0 \<and> e0) False (\<not> t0 \<and> r0) \<rparr>"

subsection \<open>The workbook of the repository's tests\<close>

text \<open>
  The header variants of \<^verbatim>\<open>test_norm_cols_maps_variants\<close>, and the workbook
  \<^verbatim>\<open>_make_excel_bytes\<close> writes in \<^verbatim>\<open>tests/test_processing.py\<close>: two sheets of eight rows,
  dated 2023-01-01 and 2023-01-02 (days 19358 and 19359), with the header on the fifth row,
  two actions and a last row left empty. \<open>test_daily\<close> is the daily table expected of it,
  the keys being the payloads under the digest of \<open>demo_lib\<close>.
\<close>

definition variant_header :: "cell list" where
  "variant_header = [Text (lit ''Champ / Zone''), Text (lit ''plateforme/sous-zone''),
     Text (lit ''N'' @ [176] @ lit '' puits''), Text (lit ''TAG '' @ [233] @ lit ''quipement''),
     Text (lit ''Sous equipement''), Text (lit ''M'' @ [233] @ lit ''tier''),
     Text (lit ''Travail effectue + commentaires''), Text (lit ''Report'' @ [233])]"

definition test_header :: "cell list" where
  "test_header = [Text (lit ''Champ / Zone''), Text (lit ''Plateforme''),
     Text (lit ''N'' @ [176] @ lit '' puits''), Text (lit ''TAG Equipement''),
     Text (lit ''Sous-equipement''), Text (lit ''Metier''),
     Text (lit ''Travail effectue + commentaires''), Text (lit ''Termin'' @ [233]),
     Text (lit ''En cours''), Text (lit ''Report'' @ [233]), Text (lit ''Indisponible'')]"

definition test_cols :: "pystr list" where
  "test_cols = [lit ''champ_zone'', lit ''plateforme_sous_zone'', lit ''num_puits'',
     lit ''tag_equipement'', lit ''sous_equipement'', lit ''metier'', lit ''travaux_commentaires'',
     lit ''termine'', lit ''en_cours'', lit ''reporte'', lit ''indisponible'']"

definition nan_row :: "cell list" where
  "nan_row = [NaN, NaN, NaN, NaN, NaN, NaN, NaN, NaN, NaN, NaN, NaN]"

definition test_row1 :: "bool \<Rightarrow> bool \<Rightarrow> cell list" where
  "test_row1 t e = [Text (lit ''Z1''), Text (lit ''PF''), Text (lit ''1''), Text (lit ''TAG1''),
     Text (lit ''SOUS1''), Text (lit ''Prod''), Text (lit ''Action 1''),
     Boolean t, Boolean e, Boolean False, Boolean False]"

definition test_row2 :: "cell list" where
  "test_row2 = [Text (lit ''Z2''), Text (lit ''PF''), Text (lit ''2''), Text (lit ''TAG2''),
     Text (lit ''SOUS2''), Text (lit ''Maint''), Text (lit ''Action 2''),
     Boolean False, Boolean False, Boolean True, Boolean True]"

definition test_sheet :: "string \<Rightarrow> int \<Rightarrow> cell list list \<Rightarrow> sheet" where
  "test_sheet name d rows =
     \<lparr> sheet_name = lit name, date_cell = Some d,
       grid = [nan_row, nan_row, nan_row, nan_row, test_header] @ rows @ [nan_row] \<rparr>"

definition test_wb :: "sheet list" where
  "test_wb = [test_sheet ''S1'' 19358 [test_row1 False True, test_row2],
              test_sheet ''S2'' 19359 [test_row1 True False, test_row2]]"

definition test_key1 :: pystr where
  "test_key1 = lit ''z1||pf||1||tag1||sous1||prod||action 1''"

definition test_key2 :: pystr where
  "test_key2 = lit ''z2||pf||2||tag2||sous2||maint||action 2''"

definition test_fact1 :: "string \<Rightarrow> int \<Rightarrow> bool \<Rightarrow> bool \<Rightarrow> daily_row" where
  "test_fact1 name d t e =
     \<lparr> action_key = test_key1, date_rapport = Some d, termine = t, en_cours = e, reporte = False,
       champ_zone = Some (lit ''Z1''), plateforme_sous_zone = Some (lit ''PF''),
       num_puits = Some (lit ''1''), tag_equipement = Some (lit ''TAG1''),
       sous_equipement = Some (lit ''SOUS1''), metier = Some (lit ''Prod''),
       travaux_commentaires = Some (lit ''Action 1''), indisponible = False, feuille = lit name \<rparr>"

definition test_fact2 :: "string \<Rightarrow> int \<Rightarrow> daily_row" where
  "test_fact2 name d =
     \<lparr> action_key = test_key2, date_rapport = Some d, termine = False, en_cours = False,
       reporte = True,
       champ_zone = Some (lit ''Z2''), plateforme_sous_zone = Some (lit ''PF''),
       num_puits = Some (lit ''2''), tag_equipement = Some (lit ''TAG2''),
       sous_equipement = Some (lit ''SOUS2''), metier = Some (lit ''Maint''),
       travaux_commentaires = Some (lit ''Action 2''), indisponible = True, feuille = lit name \<rparr>"

definition test_daily :: "daily_row list" where
  "test_daily = [test_fact1 ''S1'' 19358 False True, test_fact2 ''S1'' 19358,
                 test_fact1 ''S2'' 19359 True False, test_fact2 ''S2'' 19359]"


section \<open>Lemmas\<close>

subsection \<open>Literals and the example sheets\<close>

lemma lit_eq_iff [simp]: "lit s = lit t \<longleftrightarrow> s = t"
  by (simp add: lit_def inj_map_eq_map inj_on_def)

lemmas str_defs = lit_def py_strip_def py_isspace_def strip_accents_spaces_def replace_char_def py_split_def
  normalize_nfkd_def is_ascii_def combining_def py_lower_def py_upper_def ascii_lower_def ascii_upper_def
  startswith_def py_str_def

lemma demo_norm_cols: "norm_cols L demo_header = demo_cols"
  by (simp add: norm_cols_def demo_header_def demo_cols_def norm_col_def str_defs Let_def)

lemma range_1_2: "sheets_in_range [a, b] 1 2 = [a, b]"
  by (simp add: sheets_in_range_def upt_rec)

lemma grid_demo:
  "length (grid (demo_sheet n d rows)) \<le> 4 \<longleftrightarrow> False"
  "grid (demo_sheet n d rows) ! 4 = demo_header"
  "drop 5 (grid (demo_sheet n d rows)) = rows"
  by (simp_all add: demo_sheet_def)

lemma cell_demo:
  "cell_at demo_cols (demo_row z t e r i) (lit ''champ_zone'') = Text (lit z)"
  "cell_at demo_cols (demo_row z t e r i) (lit ''termine'') = Boolean t"
  "cell_at demo_cols (demo_row z t e r i) (lit ''en_cours'') = Boolean e"
  "cell_at demo_cols (demo_row z t e r i) (lit ''reporte'') = Boolean r"
  "cell_at demo_cols (demo_row z t e r i) (lit ''indisponible'') = Boolean i"
  by (simp_all add: cell_at_def demo_cols_def demo_row_def)

lemma to_bool_Boolean: "to_bool L (Boolean b) = b"
  by (cases b) (simp_all add: to_bool_def truthy_def str_defs)

lemma mem_demo_cols:
  "lit ''champ_zone'' \<in> set demo_cols" "lit ''termine'' \<in> set demo_cols" "lit ''en_cours'' \<in> set demo_cols"
  "lit ''reporte'' \<in> set demo_cols" "lit ''indisponible'' \<in> set demo_cols"
  "lit ''plateforme_sous_zone'' \<notin> set demo_cols" "lit ''num_puits'' \<notin> set demo_cols"
  "lit ''tag_equipement'' \<notin> set demo_cols" "lit ''sous_equipement'' \<notin> set demo_cols"
  "lit ''metier'' \<notin> set demo_cols" "lit ''travaux_commentaires'' \<notin> set demo_cols"
  by (simp_all add: demo_cols_def)

lemma flag_demo:
  "flag_of L demo_cols (demo_row z t e r i) (lit ''termine'') = t"
  "flag_of L demo_cols (demo_row z t e r i) (lit ''en_cours'') = e"
  "flag_of L demo_cols (demo_row z t e r i) (lit ''reporte'') = r"
  "flag_of L demo_cols (demo_row z t e r i) (lit ''indisponible'') = i"
  unfolding flag_of_def cell_demo to_bool_Boolean by (simp_all add: demo_cols_def)

lemma text_demo:
  "text_of L demo_cols (demo_row z t e r i) (lit ''champ_zone'') =
     Some (strip_accents_spaces L (if lit z = lit ''nan'' then [] else lit z))"
  "text_of L demo_cols r0 (lit ''plateforme_sous_zone'') = None"
  "text_of L demo_cols r0 (lit ''num_puits'') = None"
  "text_of L demo_cols r0 (lit ''tag_equipement'') = None"
  "text_of L demo_cols r0 (lit ''sous_equipement'') = None"
  "text_of L demo_cols r0 (lit ''metier'') = None"
  "text_of L demo_cols r0 (lit ''travaux_commentaires'') = None"
  unfolding text_of_def cell_demo by (simp_all add: demo_cols_def desc_cols_def py_str_def Let_def)

lemma sas_empty: "strip_accents_spaces L [] = []" "py_lower L [] = []"
  by (simp_all add: str_defs)

lemma payload_demo:
  "action_payload L (text_of L demo_cols (demo_row z t e r i)) =
     py_lower L (strip_accents_spaces L (strip_accents_spaces L (if lit z = lit ''nan'' then [] else lit z)))
       @ lit ''||||||||||||''"
  unfolding action_payload_def desc_cols_def Let_def list.map row_get_def text_demo option.case sas_empty
  by (simp add: lit_def)

lemma clean_row_demo:
  "clean_row L (demo_sheet n d rows) demo_cols (demo_row z t e r i) = demo_fact L n d z t e r i"
  unfolding clean_row_def flag_demo text_demo action_key_of_def payload_demo demo_fact_def demo_key_def
    norm_zone_def
  by (simp add: demo_sheet_def)

lemma non_empty_demo: "non_empty (demo_fact L n d z t e r i) = (py_strip (norm_zone L z) \<noteq> [])"
  by (simp add: non_empty_def demo_fact_def)

lemma clean_sheet_demo:
  "clean_sheet L (demo_sheet n d rows) =
     (let df1 = filter (\<lambda>r. cell_at demo_cols r (lit ''champ_zone'') \<noteq> NaN) rows;
          df2 = (case get_prevision_index L demo_cols df1 of None \<Rightarrow> df1 | Some k \<Rightarrow> take k df1)
      in Inr (Some (filter non_empty (map (clean_row L (demo_sheet n d rows) demo_cols) df2))))"
  unfolding clean_sheet_def grid_demo demo_norm_cols Let_def
  by (simp add: mem_demo_cols)

lemma prevision_none_1:
  assumes "strip_col L (Text (lit z)) \<noteq> lit ''PREVISION''"
  shows "get_prevision_index L demo_cols [demo_row z t e r i] = None"
  unfolding get_prevision_index_def Let_def list.map cell_demo
  by (simp add: mem_demo_cols assms)

lemma sheet_none: "clean_sheet L (demo_sheet n d []) = Inr (Some [])"
  unfolding clean_sheet_demo Let_def
  by (simp add: get_prevision_index_def mem_demo_cols)

lemma sheet_one:
  assumes "strip_col L (Text (lit z)) \<noteq> lit ''PREVISION''" and "py_strip (norm_zone L z) \<noteq> []"
  shows "clean_sheet L (demo_sheet n d [demo_row z t e r i]) = Inr (Some [demo_fact L n d z t e r i])"
  unfolding clean_sheet_demo Let_def
  by (simp add: cell_demo prevision_none_1 [OF assms(1)] clean_row_demo non_empty_demo assms(2))

lemma zone_A:
  "strip_col L (Text (lit ''A'')) \<noteq> lit ''PREVISION''" "py_strip (norm_zone L ''A'') \<noteq> []"
  by (simp_all add: strip_col_def norm_zone_def str_defs)

lemma zone_B:
  "strip_col L (Text (lit ''B'')) \<noteq> lit ''PREVISION''" "py_strip (norm_zone L ''B'') \<noteq> []"
  by (simp_all add: strip_col_def norm_zone_def str_defs)

lemmas sheet_one_A = sheet_one [OF zone_A]

lemmas sheet_one_B = sheet_one [OF zone_B]

lemma demo_fact_sel [simp]:
  "action_key (demo_fact L n d z t e r i) = demo_key L z"
  "date_rapport (demo_fact L n d z t e r i) = d"
  "termine (demo_fact L n d z t e r i) = t"
  "en_cours (demo_fact L n d z t e r i) = e"
  "reporte (demo_fact L n d z t e r i) = r"
  "indisponible (demo_fact L n d z t e r i) = i"
  "champ_zone (demo_fact L n d z t e r i) = Some (norm_zone L z)"
  by (simp_all add: demo_fact_def)

subsection \<open>The key as a function of the fields\<close>






subsection \<open>The rollup as a scan\<close>

lemma as_bool_id: "as_bool xs = xs"
  by (simp add: as_bool_def fillna_def comp_def)

lemma ffill_from_Some: "ffill_from seen (map Some xs) = map Some xs"
  by (induction xs arbitrary: seen) simp_all

lemma ffill_bools: "map (fillna d) (ffill (map Some xs)) = xs"
  by (simp add: ffill_def ffill_from_Some fillna_def comp_def)

lemma length_cummax_from: "length (cummax_from acc xs) = length xs"
  by (induction xs arbitrary: acc) simp_all

lemma map_upt_Suc': "map f [0..<Suc n] = f 0 # map (\<lambda>i. f (Suc i)) [0..<n]"
  by (simp add: map_upt_Suc del: upt_Suc)

lemma rollup_scan_index:
  "map (\<lambda>i. rolled_of_row (g ! i) (cummax_from acc (map termine g) ! i)) [0..<length g]
   = rollup_scan acc g"
proof (induction g arbitrary: acc)
  case Nil
  then show ?case by simp
next
  case (Cons x g)
  have "map (\<lambda>i. rolled_of_row ((x # g) ! i) (cummax_from acc (map termine (x # g)) ! i))
          [0..<length (x # g)]
        = rolled_of_row x (acc \<or> termine x)
          # map (\<lambda>i. rolled_of_row (g ! i) (cummax_from (acc \<or> termine x) (map termine g) ! i))
              [0..<length g]"
    by (simp add: map_upt_Suc' del: upt_Suc)
  with Cons.IH show ?case by simp
qed

lemma rollup_eq_scan: "rollup grp = rollup_scan False (sort_by_date grp)"
proof -
  define g where "g = sort_by_date grp"
  have "rollup grp =
    map (\<lambda>i. rolled_of_row (g ! i) (cummax_from False (map termine g) ! i)) [0..<length g]"
    unfolding rollup_def g_def [symmetric] Let_def as_bool_id ffill_bools cummax_def
    by (rule map_cong [OF refl]) (simp add: rolled_of_row_def length_cummax_from)
  then show ?thesis unfolding g_def by (simp only: rollup_scan_index)
qed

lemma rollup_scan_keys:
  "map action_key (rollup_scan acc g) = map action_key g"
  "map date_rapport (rollup_scan acc g) = map date_rapport g"
  "map termine_final (rollup_scan acc g) = cummax_from acc (map termine g)"
  by (induction g arbitrary: acc) (simp_all add: rolled_of_row_def)

lemma rollup_scan_exclusive:
  "x \<in> set (rollup_scan acc g) \<Longrightarrow> termine_final x \<Longrightarrow> \<not> en_cours_final x \<and> \<not> reporte_final x"
  by (induction g arbitrary: acc) (auto simp: rolled_of_row_def)

lemma cummax_from_True: "list_all id (cummax_from True xs)"
  by (induction xs) simp_all

lemma latched_cummax_from: "latched (cummax_from acc xs)"
proof (induction xs arbitrary: acc)
  case Nil
  then show ?case by simp
next
  case (Cons x xs)
  have "acc \<or> x \<Longrightarrow> list_all id (cummax_from (acc \<or> x) xs)"
    using cummax_from_True [of xs] by simp
  with Cons.IH [of "acc \<or> x"] show ?case by simp
qed

lemma latched_nth: "latched xs \<Longrightarrow> i \<le> j \<Longrightarrow> j < length xs \<Longrightarrow> xs ! i \<Longrightarrow> xs ! j"
proof (induction xs arbitrary: i j)
  case Nil
  then show ?case by simp
next
  case (Cons x xs)
  show ?case
  proof (cases i)
    case 0
    show ?thesis
    proof (cases j)
      case 0
      with Cons.prems \<open>i = 0\<close> show ?thesis by simp
    next
      case (Suc j')
      with Cons.prems \<open>i = 0\<close> have "list_all id xs" "j' < length xs" by simp_all
      then have "xs ! j'" by (simp add: list_all_length)
      with Suc show ?thesis by simp
    qed
  next
    case (Suc i')
    with Cons.prems obtain j' where "j = Suc j'" by (cases j) auto
    with Cons.prems Suc Cons.IH [of i' j'] show ?thesis by simp
  qed
qed

lemma set_sort_by_date [simp]: "set (sort_by_date df) = set df"
  by (simp add: sort_by_date_def)

lemma rollup_key_in:
  assumes "x \<in> set (rollup grp)"
  shows "action_key x \<in> action_key ` set grp"
proof -
  from assms have "action_key x \<in> set (map action_key (rollup grp))" by simp
  then show ?thesis by (simp add: rollup_eq_scan rollup_scan_keys)
qed

lemma filter_concat_groups:
  assumes "distinct ks" and "\<And>k' x. k' \<in> set ks \<Longrightarrow> x \<in> set (F k') \<Longrightarrow> key x = k'"
  shows "filter (\<lambda>x. key x = k) (concat (map F ks)) = (if k \<in> set ks then F k else [])"
  using assms
proof (induction ks)
  case Nil
  then show ?case by simp
next
  case (Cons a ks)
  have a: "filter (\<lambda>x. key x = k) (F a) = (if a = k then F a else [])"
    using Cons.prems(2) [of a] by (auto simp: filter_empty_conv)
  have rest: "filter (\<lambda>x. key x = k) (concat (map F ks)) = (if k \<in> set ks then F k else [])"
    using Cons by simp
  from Cons.prems(1) show ?case by (auto simp: a rest)
qed

lemma rollup_Nil [simp]: "rollup [] = []"
  by (simp add: rollup_eq_scan sort_by_date_def)

lemma filter_rolled_of:
  "filter (\<lambda>x. action_key x = k) (rolled_of daily)
   = rollup (filter (\<lambda>x. action_key x = k) (sort_by_key_date daily))"
proof -
  let ?s = "sort_by_key_date daily"
  let ?F = "\<lambda>k'. rollup (filter (\<lambda>r. action_key r = k') ?s)"
  have "filter (\<lambda>x. action_key x = k) (concat (map ?F (sort (remdups (map action_key ?s)))))
        = (if k \<in> set (sort (remdups (map action_key ?s))) then ?F k else [])"
  proof (rule filter_concat_groups)
    show "distinct (sort (remdups (map action_key ?s)))" by simp
  next
    fix k' x assume "x \<in> set (?F k')"
    from rollup_key_in [OF this] show "action_key x = k'" by auto
  qed
  moreover have "k \<notin> action_key ` set ?s \<Longrightarrow> filter (\<lambda>x. action_key x = k) ?s = []"
    by (auto simp: filter_empty_conv)
  ultimately show ?thesis
    by (auto simp: rolled_of_def groupby_action_key_def comp_def)
qed

lemma sorted_snd_const_fst:
  "\<forall>x\<in>set g. key x = k \<Longrightarrow> sorted (map (\<lambda>r. (key r, f r)) g) \<Longrightarrow> sorted (map f g)"
  by (induction g) auto

lemma sorted_filter_key_date:
  "sorted (map (\<lambda>r. date_key (date_rapport r))
     (filter (\<lambda>x. action_key x = k) (sort_by_key_date df)))"
proof -
  let ?g = "filter (\<lambda>x. action_key x = k) (sort_by_key_date df)"
  have "sorted (map (\<lambda>r. (action_key r, date_key (date_rapport r))) ?g)"
    unfolding sort_by_key_date_def by (rule sorted_filter) simp
  moreover have "\<forall>x\<in>set ?g. action_key x = k" by simp
  ultimately show ?thesis by (rule sorted_snd_const_fst [rotated])
qed

lemma sort_by_date_group:
  "sort_by_date (filter (\<lambda>x. action_key x = k) (sort_by_key_date df))
   = filter (\<lambda>x. action_key x = k) (sort_by_key_date df)"
  unfolding sort_by_date_def by (rule sort_key_id_if_sorted) (rule sorted_filter_key_date)

subsection \<open>The tables\<close>

lemma build_InrE:
  assumes "build_week_tables_from_excel_bytes L wb s e = Inr t"
  obtains dfs ds where "1 \<le> s" and "e \<le> int (length wb)"
    and "clean_loop L (sheets_in_range wb s e) = Inr (dfs, ds)"
    and "dfs \<noteq> []"
    and "\<not> list_all (\<lambda>x. date_rapport x = None) (concat dfs)"
    and "t = tables_of (concat dfs)"
  using assms
  by (auto simp: build_week_tables_from_excel_bytes_def clean_week_sheets_from_bytes_def Let_def
      split: sum.splits prod.splits if_splits)

lemma tables_of_simps:
  "actions_daily (tables_of daily) = daily"
  "actions_consistent (tables_of daily) = map consistent_of (rolled_of daily)"
  "actions_latest (tables_of daily) = map latest_of (groupby_tail1 (sort_by_key_date (rolled_of daily)))"
  "ended_actions (tables_of daily) = filter termine (actions_latest (tables_of daily))"
  "running_actions (tables_of daily) =
     filter (\<lambda>x. \<not> termine x \<and> en_cours x) (actions_latest (tables_of daily))"
  "postponed_actions (tables_of daily) =
     filter (\<lambda>x. \<not> termine x \<and> reporte x) (actions_latest (tables_of daily))"
  "equipment_downtime (tables_of daily) = filter indisponible daily"
  "transitions (tables_of daily) = concat (map transitions_of (groupby_action_key (rolled_of daily)))"
  by (simp_all add: tables_of_def Let_def)

lemma consistent_of_simps [simp]:
  "action_key (consistent_of x) = action_key x"
  "date_rapport (consistent_of x) = date_rapport x"
  "termine (consistent_of x) = termine_final x"
  "en_cours (consistent_of x) = en_cours_final x"
  "reporte (consistent_of x) = reporte_final x"
  by (simp_all add: consistent_of_def)

lemma latest_of_simps [simp]:
  "action_key (latest_of x) = action_key x"
  "date_rapport (latest_of x) = date_rapport x"
  "termine (latest_of x) = termine_final x"
  "en_cours (latest_of x) = en_cours_final x"
  "reporte (latest_of x) = reporte_final x"
  by (simp_all add: latest_of_def)

lemma rolled_exclusive:
  assumes "x \<in> set (rolled_of daily)" and "termine_final x"
  shows "\<not> en_cours_final x \<and> \<not> reporte_final x"
proof -
  from assms(1) obtain g where "x \<in> set (rollup g)"
    by (auto simp: rolled_of_def)
  then have "x \<in> set (rollup_scan False (sort_by_date g))" by (simp add: rollup_eq_scan)
  from rollup_scan_exclusive [OF this assms(2)] show ?thesis .
qed

lemma set_groupby_tail1: "set (groupby_tail1 xs) \<subseteq> set xs"
  by (induction xs) auto

lemma consistent_group:
  "filter (\<lambda>x. action_key x = k) (map consistent_of (rolled_of daily))
   = map consistent_of (rollup_scan False (filter (\<lambda>x. action_key x = k) (sort_by_key_date daily)))"
proof -
  have "filter (\<lambda>x. action_key x = k) (map consistent_of (rolled_of daily))
        = map consistent_of (filter (\<lambda>x. action_key x = k) (rolled_of daily))"
    by (simp add: filter_map comp_def)
  also have "\<dots> = map consistent_of (rollup (filter (\<lambda>x. action_key x = k) (sort_by_key_date daily)))"
    by (simp only: filter_rolled_of)
  finally show ?thesis by (simp only: rollup_eq_scan sort_by_date_group)
qed

subsection \<open>The transitions as a scan\<close>

lemma shift1_fillna:
  "i < length xs \<Longrightarrow> map (fillna d) (shift1 xs) ! i = (d # xs) ! i"
proof (cases i)
  case 0
  assume "i < length xs"
  with 0 show ?thesis by (cases xs) (simp_all add: shift1_def fillna_def)
next
  case (Suc j)
  assume "i < length xs"
  with Suc have "j < length (butlast xs)" by simp
  with Suc \<open>i < length xs\<close> show ?thesis
    by (cases xs) (simp_all add: shift1_def fillna_def nth_butlast del: butlast.simps)
qed

lemma upt_0_Suc: "[0..<Suc n] = 0 # map Suc [0..<n]"
  by (simp add: upt_conv_Cons map_Suc_upt del: upt_Suc)

lemma transitions_scan_index:
  "map (\<lambda>i. event_of (g ! i) ((tp # map termine_final g) ! i) ((ep # map en_cours_final g) ! i)
                ((rp # map reporte_final g) ! i))
     (filter (\<lambda>i. termine_final (g ! i) \<noteq> (tp # map termine_final g) ! i
                \<or> en_cours_final (g ! i) \<noteq> (ep # map en_cours_final g) ! i
                \<or> reporte_final (g ! i) \<noteq> (rp # map reporte_final g) ! i) [0..<length g])
   = transitions_scan tp ep rp g"
proof (induction g arbitrary: tp ep rp)
  case Nil
  then show ?case by simp
next
  case (Cons x g)
  show ?case
    using Cons.IH [of "termine_final x" "en_cours_final x" "reporte_final x"]
    by (auto simp add: upt_0_Suc filter_map comp_def simp del: upt_Suc)
qed

lemma transitions_eq_scan:
  "transitions_of sub = transitions_scan False False False (sort_by_date sub)"
proof -
  define g where "g = sort_by_date sub"
  let ?C = "\<lambda>i. termine_final (g ! i) \<noteq> (False # map termine_final g) ! i
                \<or> en_cours_final (g ! i) \<noteq> (False # map en_cours_final g) ! i
                \<or> reporte_final (g ! i) \<noteq> (False # map reporte_final g) ! i"
  let ?E = "\<lambda>i. event_of (g ! i) ((False # map termine_final g) ! i)
                ((False # map en_cours_final g) ! i) ((False # map reporte_final g) ! i)"
  have "transitions_of sub = map ?E (filter ?C [0..<length g])"
    unfolding transitions_of_def g_def [symmetric] Let_def as_bool_id
  proof (rule map_cong)
    show "filter (\<lambda>i. map termine_final g ! i \<noteq> map (fillna False) (shift1 (map termine_final g)) ! i
              \<or> map en_cours_final g ! i \<noteq> map (fillna False) (shift1 (map en_cours_final g)) ! i
              \<or> map reporte_final g ! i \<noteq> map (fillna False) (shift1 (map reporte_final g)) ! i)
            [0..<length g] = filter ?C [0..<length g]"
      by (rule filter_cong [OF refl]) (simp add: shift1_fillna)
  next
    fix i assume "i \<in> set (filter ?C [0..<length g])"
    then have "i < length g" by simp
    then show "\<lparr>action_key = action_key (g ! i), date_rapport = date_rapport (g ! i),
        termine = map termine_final g ! i, en_cours = map en_cours_final g ! i,
        reporte = map reporte_final g ! i,
        change_desc = desc (map (fillna False) (shift1 (map termine_final g)) ! i)
          (map termine_final g ! i) (map (fillna False) (shift1 (map en_cours_final g)) ! i)
          (map en_cours_final g ! i) (map (fillna False) (shift1 (map reporte_final g)) ! i)
          (map reporte_final g ! i)\<rparr> = ?E i"
      by (simp add: shift1_fillna event_of_def)
  qed
  then show ?thesis unfolding g_def by (simp only: transitions_scan_index)
qed

lemma transitions_scan_keys:
  "ev \<in> set (transitions_scan tp ep rp g) \<Longrightarrow> action_key ev \<in> action_key ` set g"
  by (induction g arbitrary: tp ep rp) (auto simp: event_of_def split: if_splits)

lemma transitions_Nil [simp]: "transitions_of [] = []"
  by (simp add: transitions_eq_scan sort_by_date_def)

lemma sort_by_date_rollup_scan:
  assumes "sorted (map (\<lambda>x. date_key (date_rapport x)) g)"
  shows "sort_by_date (rollup_scan acc g) = rollup_scan acc g"
proof -
  have "map (\<lambda>x. date_key (date_rapport x)) (rollup_scan acc g)
        = map date_key (map date_rapport (rollup_scan acc g))" by (simp add: comp_def)
  also have "\<dots> = map (\<lambda>x. date_key (date_rapport x)) g"
    by (simp only: rollup_scan_keys) (simp add: comp_def)
  finally have "sorted (map (\<lambda>x. date_key (date_rapport x)) (rollup_scan acc g))"
    using assms by simp
  then show ?thesis unfolding sort_by_date_def by (rule sort_key_id_if_sorted)
qed

lemma transitions_group:
  "filter (\<lambda>ev. action_key ev = k) (transitions (tables_of daily))
   = transitions_scan False False False
       (rollup_scan False (filter (\<lambda>x. action_key x = k) (sort_by_key_date daily)))"
proof -
  let ?r = "rolled_of daily"
  let ?F = "\<lambda>k'. transitions_of (filter (\<lambda>x. action_key x = k') ?r)"
  have "filter (\<lambda>ev. action_key ev = k) (concat (map ?F (sort (remdups (map action_key ?r)))))
        = (if k \<in> set (sort (remdups (map action_key ?r))) then ?F k else [])"
  proof (rule filter_concat_groups)
    show "distinct (sort (remdups (map action_key ?r)))" by simp
  next
    fix k' ev assume "ev \<in> set (?F k')"
    then have "action_key ev \<in> action_key ` set (sort_by_date (filter (\<lambda>x. action_key x = k') ?r))"
      unfolding transitions_eq_scan by (rule transitions_scan_keys)
    then show "action_key ev = k'" by auto
  qed
  moreover have "k \<notin> action_key ` set ?r \<Longrightarrow> filter (\<lambda>x. action_key x = k) ?r = []"
    by (auto simp: filter_empty_conv)
  ultimately have "filter (\<lambda>ev. action_key ev = k) (transitions (tables_of daily)) = ?F k"
    by (auto simp: tables_of_simps groupby_action_key_def comp_def)
  also have "\<dots> = transitions_of
      (rollup_scan False (filter (\<lambda>x. action_key x = k) (sort_by_key_date daily)))"
    by (simp only: filter_rolled_of rollup_eq_scan sort_by_date_group)
  also have "\<dots> = transitions_scan False False False
      (rollup_scan False (filter (\<lambda>x. action_key x = k) (sort_by_key_date daily)))"
    by (simp only: transitions_eq_scan sort_by_date_rollup_scan [OF sorted_filter_key_date])
  finally show ?thesis .
qed

lemma rollup_scan_constant:
  assumes "\<forall>x\<in>set g. termine x = t0 \<and> en_cours x = e0 \<and> reporte x = r0"
    and "y \<in> set (rollup_scan acc g)"
  shows "termine_final y = (acc \<or> t0) \<and> en_cours_final y = (\<not> (acc \<or> t0) \<and> e0)
       \<and> reporte_final y = (\<not> (acc \<or> t0) \<and> r0)"
  using assms by (induction g arbitrary: acc) (auto simp: rolled_of_row_def)

lemma transitions_scan_steady:
  "\<forall>y\<in>set ys. termine_final y = a \<and> en_cours_final y = b \<and> reporte_final y = c \<Longrightarrow>
     transitions_scan a b c ys = []"
  by (induction ys) simp_all

lemma steady_events:
  assumes "\<forall>x\<in>set (g0 # g). termine x = t0 \<and> en_cours x = e0 \<and> reporte x = r0"
  shows "transitions_scan False False False (rollup_scan False (g0 # g))
         = (if t0 \<or> e0 \<or> r0 then [event_of (rolled_of_row g0 t0) False False False] else [])"
proof -
  from assms have g0: "termine g0 = t0" "en_cours g0 = e0" "reporte g0 = r0"
    and g: "\<forall>x\<in>set g. termine x = t0 \<and> en_cours x = e0 \<and> reporte x = r0" by simp_all
  have rest: "\<forall>y\<in>set (rollup_scan t0 g).
      termine_final y = t0 \<and> en_cours_final y = (\<not> t0 \<and> e0) \<and> reporte_final y = (\<not> t0 \<and> r0)"
    using rollup_scan_constant [OF g, of _ t0] by simp
  have "transitions_scan t0 (\<not> t0 \<and> e0) (\<not> t0 \<and> r0) (rollup_scan t0 g) = []"
    by (rule transitions_scan_steady [OF rest])
  then show ?thesis by (auto simp: g0 rolled_of_row_def)
qed

subsection \<open>The separator of the key\<close>

lemma text_collide:
  "text_of L key_cols collide_row1 (lit ''champ_zone'') = Some (lit ''a||b'')"
  "text_of L key_cols collide_row1 (lit ''plateforme_sous_zone'') = Some (lit ''c'')"
  "text_of L key_cols collide_row2 (lit ''champ_zone'') = Some (lit ''a'')"
  "text_of L key_cols collide_row2 (lit ''plateforme_sous_zone'') = Some (lit ''b||c'')"
  "text_of L key_cols r0 (lit ''num_puits'') = None"
  "text_of L key_cols r0 (lit ''tag_equipement'') = None"
  "text_of L key_cols r0 (lit ''sous_equipement'') = None"
  "text_of L key_cols r0 (lit ''metier'') = None"
  "text_of L key_cols r0 (lit ''travaux_commentaires'') = None"
  by (simp_all add: text_of_def key_cols_def desc_cols_def cell_at_def collide_row1_def
      collide_row2_def Let_def str_defs)

lemma norm_collide:
  "py_lower L (strip_accents_spaces L (lit ''a||b'')) = lit ''a||b''"
  "py_lower L (strip_accents_spaces L (lit ''c'')) = lit ''c''"
  "py_lower L (strip_accents_spaces L (lit ''a'')) = lit ''a''"
  "py_lower L (strip_accents_spaces L (lit ''b||c'')) = lit ''b||c''"
  by (simp_all add: str_defs)

lemma payload_collide:
  "action_payload L (text_of L key_cols collide_row1) = lit ''a||b||c||||||||||''"
  "action_payload L (text_of L key_cols collide_row2) = lit ''a||b||c||||||||||''"
  unfolding action_payload_def desc_cols_def Let_def list.map row_get_def text_collide option.case
    sas_empty norm_collide
  by (simp_all add: lit_def)

lemma collide_norm_cols:
  "norm_cols L [Text (lit ''Champ / Zone''), Text (lit ''Plateforme'')] = key_cols"
  by (simp add: norm_cols_def key_cols_def norm_col_def str_defs Let_def)

lemma collide_cells:
  "cell_at key_cols collide_row1 (lit ''champ_zone'') = Text (lit ''a||b'')"
  "cell_at key_cols collide_row2 (lit ''champ_zone'') = Text (lit ''a'')"
  by (simp_all add: cell_at_def key_cols_def collide_row1_def collide_row2_def)

lemma collide_strip:
  "strip_col L (Text (lit ''a||b'')) \<noteq> lit ''PREVISION''"
  "strip_col L (Text (lit ''a'')) \<noteq> lit ''PREVISION''"
  by (simp_all add: strip_col_def str_defs)

lemma collide_prevision: "get_prevision_index L key_cols [collide_row1, collide_row2] = None"
  unfolding get_prevision_index_def Let_def list.map collide_cells
  by (simp add: key_cols_def collide_strip)

lemma collide_non_empty:
  "non_empty (clean_row L sh key_cols collide_row1)"
  "non_empty (clean_row L sh key_cols collide_row2)"
  by (simp_all add: non_empty_def clean_row_def text_collide) (simp_all add: str_defs)

lemma collide_clean:
  "clean_sheet L collide_sheet =
     Inr (Some [clean_row L collide_sheet key_cols collide_row1, clean_row L collide_sheet key_cols collide_row2])"
proof -
  have g: "length (grid collide_sheet) \<le> 4 \<longleftrightarrow> False"
    "grid collide_sheet ! 4 = [Text (lit ''Champ / Zone''), Text (lit ''Plateforme'')]"
    "drop 5 (grid collide_sheet) = [collide_row1, collide_row2]"
    by (simp_all add: collide_sheet_def)
  show ?thesis
    unfolding clean_sheet_def g collide_norm_cols Let_def
    by (simp add: collide_cells collide_prevision collide_non_empty) (simp add: key_cols_def)
qed


subsection \<open>The example workbooks\<close>

lemma range_1_1: "sheets_in_range (a # wb) 1 1 = [a]"
  by (simp add: sheets_in_range_def upt_rec)

lemma range_1_3: "sheets_in_range [a, b, c] 1 3 = [a, b, c]"
  by (simp add: sheets_in_range_def upt_rec)

lemma build_first:
  assumes "clean_sheet L a = Inr (Some da)" and "\<not> list_all (\<lambda>x. date_rapport x = None) da"
  shows "build_week_tables_from_excel_bytes L (a # wb) 1 1 = Inr (tables_of da)"
  using assms
  by (simp add: build_week_tables_from_excel_bytes_def clean_week_sheets_from_bytes_def range_1_1)

lemma build_two:
  assumes "clean_sheet L a = Inr (Some da)" and "clean_sheet L b = Inr (Some db)"
    and "\<not> list_all (\<lambda>x. date_rapport x = None) (da @ db)"
  shows "build_week_tables_from_excel_bytes L [a, b] 1 2 = Inr (tables_of (da @ db))"
  using assms
  by (simp add: build_week_tables_from_excel_bytes_def clean_week_sheets_from_bytes_def range_1_2)

lemma build_three:
  assumes "clean_sheet L a = Inr (Some da)" and "clean_sheet L b = Inr (Some db)"
    and "clean_sheet L c = Inr (Some dc)"
    and "\<not> list_all (\<lambda>x. date_rapport x = None) (da @ db @ dc)"
  shows "build_week_tables_from_excel_bytes L [a, b, c] 1 3 = Inr (tables_of (da @ db @ dc))"
  using assms
  by (simp add: build_week_tables_from_excel_bytes_def clean_week_sheets_from_bytes_def range_1_3)

lemma flip_build:
  "build_week_tables_from_excel_bytes demo_lib wb_flip 1 2 = Inr (tables_of daily_flip)"
  unfolding wb_flip_def
  using build_two [OF sheet_one_A sheet_one_A, of demo_lib "''S1''" "Some 1" False True False False
      "''S2''" "Some 2" True False False False]
  by (simp add: daily_flip_def)

lemma both_build:
  "build_week_tables_from_excel_bytes demo_lib wb_both 1 2 = Inr (tables_of daily_both)"
  unfolding wb_both_def
  using build_two [OF sheet_one_A sheet_one_A, of demo_lib "''S1''" "Some 1" False True True False
      "''S2''" "Some 2" True True True False]
  by (simp add: daily_both_def)

lemma both_build_first:
  "build_week_tables_from_excel_bytes demo_lib wb_both 1 1 = Inr (tables_of [hd daily_both])"
  unfolding wb_both_def
  using build_first [OF sheet_one_A, of demo_lib "''S1''" "Some 1" False True True False]
  by (simp add: daily_both_def)

lemma sort_by_key_date_id:
  "sorted (map (\<lambda>r. (action_key r, date_key (date_rapport r))) df) \<Longrightarrow> sort_by_key_date df = df"
  unfolding sort_by_key_date_def by (rule sort_key_id_if_sorted)

lemma sort_one [simp]: "sort_by_key_date [x] = [x]" "sort_by_date [x] = [x]"
  by (simp_all add: sort_by_key_date_def sort_by_date_def)

lemma sort_two:
  "action_key x = action_key y \<Longrightarrow> date_key (date_rapport x) \<le> date_key (date_rapport y) \<Longrightarrow>
     sort_by_key_date [x, y] = [x, y]"
  by (rule sort_by_key_date_id) simp

lemma rolled_one: "rolled_of [x] = [rolled_of_row x (termine x)]"
  by (simp add: rolled_of_def groupby_action_key_def rollup_eq_scan)

lemma rolled_two:
  assumes "action_key x = action_key y" and "date_key (date_rapport x) \<le> date_key (date_rapport y)"
  shows "rolled_of [x, y] = [rolled_of_row x (termine x), rolled_of_row y (termine x \<or> termine y)]"
  using assms
  by (simp add: rolled_of_def sort_two groupby_action_key_def rollup_eq_scan sort_by_date_def)

lemma rolled_of_row_sel [simp]:
  "action_key (rolled_of_row x s) = action_key x"
  "date_rapport (rolled_of_row x s) = date_rapport x"
  "termine_final (rolled_of_row x s) = s"
  "en_cours_final (rolled_of_row x s) = (\<not> s \<and> en_cours x)"
  "reporte_final (rolled_of_row x s) = (\<not> s \<and> reporte x)"
  by (simp_all add: rolled_of_row_def)

lemma latest_two:
  assumes "action_key x = action_key y" and "date_key (date_rapport x) \<le> date_key (date_rapport y)"
  shows "actions_latest (tables_of [x, y]) = [latest_of (rolled_of_row y (termine x \<or> termine y))]"
  using assms
  by (simp add: tables_of_simps rolled_two sort_two)

lemma consistent_two:
  assumes "action_key x = action_key y" and "date_key (date_rapport x) \<le> date_key (date_rapport y)"
  shows "actions_consistent (tables_of [x, y])
    = [consistent_of (rolled_of_row x (termine x)), consistent_of (rolled_of_row y (termine x \<or> termine y))]"
  using assms by (simp add: tables_of_simps rolled_two)

lemma flip_consistent:
  "map termine (actions_consistent (tables_of daily_flip)) = [False, True]"
  "map en_cours (actions_consistent (tables_of daily_flip)) = [True, False]"
  "map action_key (actions_consistent (tables_of daily_flip)) = [demo_key demo_lib ''A'', demo_key demo_lib ''A'']"
  by (simp_all add: daily_flip_def consistent_two date_key_def)

lemma both_first:
  "map (\<lambda>x. (termine x, en_cours x, reporte x)) (actions_consistent (tables_of [hd daily_both]))
     = [(False, True, True)]"
  "running_actions (tables_of [hd daily_both]) = actions_latest (tables_of [hd daily_both])"
  "postponed_actions (tables_of [hd daily_both]) = actions_latest (tables_of [hd daily_both])"
  "length (actions_latest (tables_of [hd daily_both])) = 1"
  by (simp_all add: daily_both_def tables_of_simps rolled_one)

lemma both_latest:
  "map (\<lambda>x. (termine x, en_cours x, reporte x)) (actions_latest (tables_of daily_both))
     = [(True, False, False)]"
  "length (ended_actions (tables_of daily_both)) = 1"
  by (simp_all add: daily_both_def tables_of_simps latest_two rolled_two sort_two date_key_def)


subsection \<open>Transitions of the examples\<close>

lemma demo_sheet_sel [simp]:
  "date_cell (demo_sheet n d rows) = d" "sheet_name (demo_sheet n d rows) = lit n"
  by (simp_all add: demo_sheet_def)

lemma steady_build:
  "build_week_tables_from_excel_bytes demo_lib wb_steady 1 2 = Inr (tables_of daily_steady)"
  unfolding wb_steady_def
  using build_two [OF sheet_one_A sheet_one_A, of demo_lib "''S1''" "Some 1" False True False False
      "''S2''" "Some 2" False True False False]
  by (simp add: daily_steady_def)

lemma idle_build:
  "build_week_tables_from_excel_bytes demo_lib wb_idle 1 2 = Inr (tables_of daily_idle)"
  unfolding wb_idle_def
  using build_two [OF sheet_one_A sheet_one_A, of demo_lib "''S1''" "Some 1" False False False False
      "''S2''" "Some 2" False False False False]
  by (simp add: daily_idle_def)

lemma desc_values:
  "desc False False False True False False = lit ''en_cours: False -> True''"
  "desc False True True False False False = lit ''termine: False -> True; en_cours: True -> False''"
  by (simp_all add: desc_def change_msg_def bool_str_def lit_def)

lemma transitions_two:
  assumes "action_key x = action_key y" and "date_key (date_rapport x) \<le> date_key (date_rapport y)"
  shows "transitions (tables_of [x, y]) =
     transitions_scan False False False
       [rolled_of_row x (termine x), rolled_of_row y (termine x \<or> termine y)]"
  using assms
  by (simp add: tables_of_simps rolled_two groupby_action_key_def transitions_eq_scan sort_by_date_def)

lemma steady_transitions:
  "transitions (tables_of daily_steady) =
     [\<lparr> action_key = demo_key demo_lib ''A'', date_rapport = Some 1, termine = False,
        en_cours = True, reporte = False, change_desc = lit ''en_cours: False -> True'' \<rparr>]"
  by (simp add: daily_steady_def transitions_two date_key_def event_of_def desc_values)

lemma flip_transitions:
  "transitions (tables_of daily_flip) =
     [\<lparr> action_key = demo_key demo_lib ''A'', date_rapport = Some 1, termine = False,
        en_cours = True, reporte = False, change_desc = lit ''en_cours: False -> True'' \<rparr>,
      \<lparr> action_key = demo_key demo_lib ''A'', date_rapport = Some 2, termine = True,
        en_cours = False, reporte = False,
        change_desc = lit ''termine: False -> True; en_cours: True -> False'' \<rparr>]"
  by (simp add: daily_flip_def transitions_two date_key_def event_of_def desc_values)

lemma raw_flags:
  "map (\<lambda>x. (termine x, en_cours x, reporte x)) daily_steady = [(False, True, False), (False, True, False)]"
  "map (\<lambda>x. (termine x, en_cours x, reporte x)) daily_flip = [(False, True, False), (True, False, False)]"
  "map (\<lambda>x. (termine x, en_cours x, reporte x)) daily_idle = [(False, False, False), (False, False, False)]"
  by (simp_all add: daily_steady_def daily_flip_def daily_idle_def)

lemma single_key_rows:
  "filter (\<lambda>x. action_key x = demo_key demo_lib ''A'') (sort_by_key_date (actions_daily (tables_of daily_steady)))
     = daily_steady"
  "filter (\<lambda>x. action_key x = demo_key demo_lib ''A'') (sort_by_key_date (actions_daily (tables_of daily_idle)))
     = daily_idle"
  "filter (\<lambda>x. action_key x = demo_key demo_lib ''A'') (sort_by_key_date (actions_daily (tables_of daily_flip)))
     = daily_flip"
  by (simp_all add: tables_of_simps(1) daily_steady_def daily_idle_def daily_flip_def sort_two date_key_def)

subsection \<open>The sheet range and the empty results\<close>

lemma empty_range: "e < s \<Longrightarrow> 1 \<le> s \<Longrightarrow> sheets_in_range wb s e = []"
  by (simp add: sheets_in_range_def)

lemma length_wb_flip: "length wb_flip = 2"
  by (simp add: wb_flip_def)

lemma short_fails:
  "length wb_short = 1"
  "build_week_tables_from_excel_bytes L wb_short 1 1 = Inl IndexError"
  by (simp_all add: wb_short_def build_week_tables_from_excel_bytes_def
      clean_week_sheets_from_bytes_def range_1_1 clean_sheet_def)

lemma down_build:
  "build_week_tables_from_excel_bytes demo_lib wb_down 1 3 = Inr (tables_of daily_down)"
  unfolding wb_down_def
  using build_three [OF sheet_one_A sheet_one_B sheet_one_A, of demo_lib
      "''S1''" "Some 1" False False False True
      "''S2''" "Some 2" False True False False
      "''S3''" "Some 3" False False False True]
  by (simp add: daily_down_def)

lemma clean_loop_skipped:
  "\<forall>sh\<in>set shs. 4 < length (grid sh) \<and> lit ''champ_zone'' \<notin> set (norm_cols L (grid sh ! 4)) \<Longrightarrow>
     clean_loop L shs = Inr ([], map date_cell shs)"
  by (induction shs) (simp_all add: clean_sheet_def Let_def)

lemma zone_norm_cols:
  "norm_cols L zone_header = [lit ''zone'', lit ''termine'', lit ''en_cours'', lit ''reporte'', lit ''indisponible'']"
  by (simp add: norm_cols_def zone_header_def norm_col_def str_defs Let_def)

lemma nozone_sheets:
  "sheets_in_range wb_nozone 1 1 = wb_nozone"
  "length wb_nozone = 1"
  "\<forall>sh\<in>set wb_nozone. 4 < length (grid sh) \<and> lit ''champ_zone'' \<notin> set (norm_cols demo_lib (grid sh ! 4))"
  by (simp_all add: wb_nozone_def range_1_1 zone_norm_cols)

lemma undated_clean:
  "clean_week_sheets_from_bytes demo_lib wb_undated 1 1
     = Inr ([[demo_fact demo_lib ''S1'' None ''A'' False True False False]], [None])"
  "clean_week_sheets_from_bytes demo_lib wb_blank 1 1 = Inr ([[]], [Some 1])"
  by (simp_all add: clean_week_sheets_from_bytes_def wb_undated_def wb_blank_def range_1_1
      sheet_one_A sheet_none)

subsection \<open>The sentinel\<close>

lemma first_index_takeWhile:
  "(case (if filter (\<lambda>i. map P df ! i) [0..<length df] \<noteq> []
          then Some (hd (filter (\<lambda>i. map P df ! i) [0..<length df])) else None) of
      None \<Rightarrow> df | Some k \<Rightarrow> take k df)
   = takeWhile (\<lambda>r. \<not> P r) df"
proof (induction df)
  case Nil
  then show ?case by simp
next
  case (Cons x df)
  have idx: "filter (\<lambda>i. map P (x # df) ! i) [0..<length (x # df)]
        = (if P x then [0] else []) @ map Suc (filter (\<lambda>i. map P df ! i) [0..<length df])"
    by (simp add: upt_0_Suc filter_map comp_def del: upt_Suc)
  show ?case
  proof (cases "P x")
    case True
    then show ?thesis unfolding idx by simp
  next
    case False
    with Cons.IH show ?thesis
      unfolding idx
      by (cases "filter (\<lambda>i. map P df ! i) [0..<length df]") simp_all
  qed
qed

lemma cut_takeWhile:
  assumes "lit ''champ_zone'' \<in> set cols"
  shows "(case get_prevision_index L cols df of None \<Rightarrow> df | Some k \<Rightarrow> take k df)
         = takeWhile (\<lambda>r. \<not> is_prevision L cols r) df"
proof -
  have eq: "(\<lambda>r. strip_col L (cell_at cols r (lit ''champ_zone'')) = lit ''PREVISION'')
            = is_prevision L cols"
    by (simp add: is_prevision_def fun_eq_iff)
  have "get_prevision_index L cols df =
    (if filter (\<lambda>i. map (is_prevision L cols) df ! i) [0..<length df] \<noteq> []
     then Some (hd (filter (\<lambda>i. map (is_prevision L cols) df ! i) [0..<length df])) else None)"
    unfolding get_prevision_index_def Let_def eq using assms by simp
  then show ?thesis by (simp only: first_index_takeWhile)
qed

lemma takeWhile_stop: "\<not> P x \<Longrightarrow> takeWhile P (xs @ x # ys) = takeWhile P xs"
  by (induction xs) simp_all

lemma strip_col_NaN: "strip_col L NaN \<noteq> lit ''PREVISION''"
  by (simp add: strip_col_def str_defs)

lemma sentinel_strip:
  "strip_col demo_lib (cell_at demo_cols sentinel_row (lit ''champ_zone'')) = lit ''PREVISION''"
  by (simp add: cell_at_def demo_cols_def sentinel_row_def strip_col_def str_defs demo_lib_def)

subsection \<open>The repository's tests\<close>

text \<open>
  The three tests of \<^verbatim>\<open>tests/test_processing.py\<close> on the model, with the library of the
  examples. The date bounds of the second test are read by another module; the dates of
  the daily table stand for them.
\<close>

lemma test_norm_cols_maps_variants:
  "norm_cols demo_lib variant_header =
     [lit ''champ_zone'', lit ''plateforme_sous_zone'', lit ''num_puits'', lit ''tag_equipement'',
      lit ''sous_equipement'', lit ''metier'', lit ''travaux_commentaires'', lit ''reporte'']"
  by (simp add: norm_cols_def variant_header_def norm_col_def str_defs Let_def demo_lib_def)

lemma test_norm_cols: "norm_cols demo_lib test_header = test_cols"
  by (simp add: norm_cols_def test_header_def test_cols_def norm_col_def str_defs Let_def demo_lib_def)

lemma test_grid:
  "length (grid (test_sheet n d rows)) \<le> 4 \<longleftrightarrow> False"
  "grid (test_sheet n d rows) ! 4 = test_header"
  "drop 5 (grid (test_sheet n d rows)) = rows @ [nan_row]"
  by (simp_all add: test_sheet_def)

lemma test_cells:
  "cell_at test_cols (test_row1 t e) (lit ''champ_zone'') = Text (lit ''Z1'')"
  "cell_at test_cols test_row2 (lit ''champ_zone'') = Text (lit ''Z2'')"
  "cell_at test_cols nan_row (lit ''champ_zone'') = NaN"
  by (simp_all add: cell_at_def test_cols_def test_row1_def test_row2_def nan_row_def)

lemma test_strip:
  "strip_col L (Text (lit ''Z1'')) \<noteq> lit ''PREVISION''"
  "strip_col L (Text (lit ''Z2'')) \<noteq> lit ''PREVISION''"
  by (simp_all add: strip_col_def str_defs)

lemma test_prevision:
  "get_prevision_index L test_cols [test_row1 t e, test_row2] = None"
  unfolding get_prevision_index_def Let_def list.map test_cells
  by (simp add: test_cols_def test_strip)

lemma test_flags:
  "flag_of L test_cols (test_row1 t e) (lit ''termine'') = t"
  "flag_of L test_cols (test_row1 t e) (lit ''en_cours'') = e"
  "flag_of L test_cols (test_row1 t e) (lit ''reporte'') = False"
  "flag_of L test_cols (test_row1 t e) (lit ''indisponible'') = False"
  "flag_of L test_cols test_row2 (lit ''termine'') = False"
  "flag_of L test_cols test_row2 (lit ''en_cours'') = False"
  "flag_of L test_cols test_row2 (lit ''reporte'') = True"
  "flag_of L test_cols test_row2 (lit ''indisponible'') = True"
  by (simp_all add: flag_of_def cell_at_def test_cols_def test_row1_def test_row2_def to_bool_Boolean)

lemma test_texts1:
  "text_of L test_cols (test_row1 t e) (lit ''champ_zone'') = Some (lit ''Z1'')"
  "text_of L test_cols (test_row1 t e) (lit ''plateforme_sous_zone'') = Some (lit ''PF'')"
  "text_of L test_cols (test_row1 t e) (lit ''num_puits'') = Some (lit ''1'')"
  "text_of L test_cols (test_row1 t e) (lit ''tag_equipement'') = Some (lit ''TAG1'')"
  "text_of L test_cols (test_row1 t e) (lit ''sous_equipement'') = Some (lit ''SOUS1'')"
  "text_of L test_cols (test_row1 t e) (lit ''metier'') = Some (lit ''Prod'')"
  "text_of L test_cols (test_row1 t e) (lit ''travaux_commentaires'') = Some (lit ''Action 1'')"
  by (simp_all add: text_of_def cell_at_def test_cols_def test_row1_def desc_cols_def Let_def str_defs)

lemma test_texts2:
  "text_of L test_cols test_row2 (lit ''champ_zone'') = Some (lit ''Z2'')"
  "text_of L test_cols test_row2 (lit ''plateforme_sous_zone'') = Some (lit ''PF'')"
  "text_of L test_cols test_row2 (lit ''num_puits'') = Some (lit ''2'')"
  "text_of L test_cols test_row2 (lit ''tag_equipement'') = Some (lit ''TAG2'')"
  "text_of L test_cols test_row2 (lit ''sous_equipement'') = Some (lit ''SOUS2'')"
  "text_of L test_cols test_row2 (lit ''metier'') = Some (lit ''Maint'')"
  "text_of L test_cols test_row2 (lit ''travaux_commentaires'') = Some (lit ''Action 2'')"
  by (simp_all add: text_of_def cell_at_def test_cols_def test_row2_def desc_cols_def Let_def str_defs)

lemma test_parts:
  "py_lower L (strip_accents_spaces L (lit ''Z1'')) = lit ''z1''"
  "py_lower L (strip_accents_spaces L (lit ''Z2'')) = lit ''z2''"
  "py_lower L (strip_accents_spaces L (lit ''PF'')) = lit ''pf''"
  "py_lower L (strip_accents_spaces L (lit ''1'')) = lit ''1''"
  "py_lower L (strip_accents_spaces L (lit ''2'')) = lit ''2''"
  "py_lower L (strip_accents_spaces L (lit ''TAG1'')) = lit ''tag1''"
  "py_lower L (strip_accents_spaces L (lit ''TAG2'')) = lit ''tag2''"
  "py_lower L (strip_accents_spaces L (lit ''SOUS1'')) = lit ''sous1''"
  "py_lower L (strip_accents_spaces L (lit ''SOUS2'')) = lit ''sous2''"
  "py_lower L (strip_accents_spaces L (lit ''Prod'')) = lit ''prod''"
  "py_lower L (strip_accents_spaces L (lit ''Maint'')) = lit ''maint''"
  "py_lower L (strip_accents_spaces L (lit ''Action 1'')) = lit ''action 1''"
  "py_lower L (strip_accents_spaces L (lit ''Action 2'')) = lit ''action 2''"
  by (simp_all add: str_defs)

lemma test_payloads:
  "action_payload L (text_of L test_cols (test_row1 t e)) = test_key1"
  "action_payload L (text_of L test_cols test_row2) = test_key2"
  unfolding action_payload_def desc_cols_def Let_def list.map row_get_def test_texts1 test_texts2
    option.case test_parts test_key1_def test_key2_def
  by (simp_all add: lit_def)

lemma test_clean_rows:
  "clean_row demo_lib (test_sheet n d rows) test_cols (test_row1 t e) = test_fact1 n d t e"
  "clean_row demo_lib (test_sheet n d rows) test_cols test_row2 = test_fact2 n d"
  unfolding clean_row_def test_flags test_texts1 test_texts2 action_key_of_def test_payloads
    test_fact1_def test_fact2_def
  by (simp_all add: test_sheet_def demo_lib_def)

lemma test_non_empty: "non_empty (test_fact1 n d t e)" "non_empty (test_fact2 n d)"
  by (simp_all add: non_empty_def test_fact1_def test_fact2_def) (simp_all add: str_defs)

lemma test_clean_sheet:
  "clean_sheet demo_lib (test_sheet n d [test_row1 t e, test_row2])
     = Inr (Some [test_fact1 n d t e, test_fact2 n d])"
  unfolding clean_sheet_def test_grid test_norm_cols Let_def
  by (simp add: test_cells test_prevision test_clean_rows test_non_empty) (simp add: test_cols_def)

lemma test_build:
  "build_week_tables_from_excel_bytes demo_lib test_wb 1 2 = Inr (tables_of test_daily)"
  unfolding test_wb_def
  using build_two [OF test_clean_sheet test_clean_sheet, of "''S1''" 19358 False True "''S2''" 19359 True False]
  by (simp add: test_daily_def test_fact1_def)

lemma test_key_order [simp]:
  "test_key1 < test_key2" "test_key1 \<le> test_key2" "\<not> test_key2 < test_key1"
  "\<not> test_key2 \<le> test_key1" "test_key1 \<noteq> test_key2" "test_key2 \<noteq> test_key1"
  by (simp_all add: test_key1_def test_key2_def lit_def)

lemma test_fact_sel [simp]:
  "action_key (test_fact1 n d t e) = test_key1" "action_key (test_fact2 n d) = test_key2"
  "date_rapport (test_fact1 n d t e) = Some d" "date_rapport (test_fact2 n d) = Some d"
  "termine (test_fact1 n d t e) = t" "termine (test_fact2 n d) = False"
  "en_cours (test_fact1 n d t e) = e" "en_cours (test_fact2 n d) = False"
  "reporte (test_fact1 n d t e) = False" "reporte (test_fact2 n d) = True"
  "indisponible (test_fact1 n d t e) = False" "indisponible (test_fact2 n d) = True"
  "tag_equipement (test_fact1 n d t e) = Some (lit ''TAG1'')"
  "tag_equipement (test_fact2 n d) = Some (lit ''TAG2'')"
  by (simp_all add: test_fact1_def test_fact2_def)

lemma test_sorted:
  "sort_by_key_date test_daily =
     [test_fact1 ''S1'' 19358 False True, test_fact1 ''S2'' 19359 True False,
      test_fact2 ''S1'' 19358, test_fact2 ''S2'' 19359]"
  by (simp add: sort_by_key_date_def test_daily_def date_key_def)

lemma test_rolled:
  "rolled_of test_daily =
     [rolled_of_row (test_fact1 ''S1'' 19358 False True) False,
      rolled_of_row (test_fact1 ''S2'' 19359 True False) True,
      rolled_of_row (test_fact2 ''S1'' 19358) False,
      rolled_of_row (test_fact2 ''S2'' 19359) False]"
  by (simp add: rolled_of_def test_sorted groupby_action_key_def rollup_eq_scan sort_by_date_def
      date_key_def)

lemma test_rolled_sorted: "sort_by_key_date (rolled_of test_daily) = rolled_of test_daily"
  by (rule sort_by_key_date_id) (simp add: test_rolled date_key_def)

lemma rolled_of_row_tag [simp]: "tag_equipement (rolled_of_row x s) = tag_equipement x"
  by (simp add: rolled_of_row_def)

lemma latest_of_tag [simp]: "tag_equipement (latest_of x) = tag_equipement x"
  by (simp add: latest_of_def)

lemma desc_reporte: "desc False False False False False True = lit ''reporte: False -> True''"
  by (simp add: desc_def change_msg_def bool_str_def lit_def)

lemma test_latest:
  "map (\<lambda>x. (tag_equipement x, termine x, en_cours x, reporte x)) (actions_latest (tables_of test_daily))
     = [(Some (lit ''TAG1''), True, False, False), (Some (lit ''TAG2''), False, False, True)]"
  unfolding tables_of_simps test_rolled_sorted
  by (simp add: test_rolled)

lemma test_transitions:
  "map change_desc (transitions (tables_of test_daily))
     = [lit ''en_cours: False -> True'', lit ''termine: False -> True; en_cours: True -> False'',
        lit ''reporte: False -> True'']"
  unfolding tables_of_simps
  by (simp add: test_rolled groupby_action_key_def transitions_eq_scan sort_by_date_def date_key_def
      event_of_def desc_values desc_reporte)

lemma test_build_week_tables_rollup_and_bounds:
  "build_week_tables_from_excel_bytes demo_lib test_wb 1 2 = Inr (tables_of test_daily)"
  "length (actions_daily (tables_of test_daily)) = 4"
  "map date_rapport (actions_daily (tables_of test_daily)) = [Some 19358, Some 19358, Some 19359, Some 19359]"
  "map (\<lambda>x. (tag_equipement x, termine x, en_cours x, reporte x)) (actions_latest (tables_of test_daily))
     = [(Some (lit ''TAG1''), True, False, False), (Some (lit ''TAG2''), False, False, True)]"
  "list_ex (\<lambda>ev. contains (change_desc ev) (lit ''termine'')) (transitions (tables_of test_daily))"
  "length (equipment_downtime (tables_of test_daily)) = 2"
proof -
  show "build_week_tables_from_excel_bytes demo_lib test_wb 1 2 = Inr (tables_of test_daily)"
    by (rule test_build)
  show "length (actions_daily (tables_of test_daily)) = 4"
    by (simp add: tables_of_simps test_daily_def)
  show "map date_rapport (actions_daily (tables_of test_daily)) = [Some 19358, Some 19358, Some 19359, Some 19359]"
    by (simp add: tables_of_simps test_daily_def)
  show "map (\<lambda>x. (tag_equipement x, termine x, en_cours x, reporte x)) (actions_latest (tables_of test_daily))
     = [(Some (lit ''TAG1''), True, False, False), (Some (lit ''TAG2''), False, False, True)]"
    by (rule test_latest)
  have "list_ex (\<lambda>d. contains d (lit ''termine'')) (map change_desc (transitions (tables_of test_daily)))"
    unfolding test_transitions by (simp add: lit_def startswith_def)
  then show "list_ex (\<lambda>ev. contains (change_desc ev) (lit ''termine'')) (transitions (tables_of test_daily))"
    by (simp add: list_ex_iff)
  show "length (equipment_downtime (tables_of test_daily)) = 2"
    by (simp add: tables_of_simps test_daily_def)
qed

lemma test_build_week_tables_invalid_range:
  "build_week_tables_from_excel_bytes demo_lib test_wb 3 5 = Inl (InvalidSheetRange 3 5 2)"
  by (simp add: build_week_tables_from_excel_bytes_def clean_week_sheets_from_bytes_def test_wb_def)

section \<open>Properties of the pipeline\<close>

subsection \<open>C1: the final flags\<close>

text \<open>
  Claim C1, amended. In the tables of every run that succeeds, on every row of
  \<open>actions_consistent\<close> and of \<open>actions_latest\<close> a true \<open>termine\<close> excludes \<open>en_cours\<close> and
  \<open>reporte\<close>, and \<open>ended_actions\<close> shares no row with \<open>running_actions\<close> nor with
  \<open>postponed_actions\<close>. Nothing keeps \<open>en_cours\<close> and \<open>reporte\<close> apart: the rollup clears both
  when the action is finished and otherwise leaves them as the sheet has them.
\<close>

theorem termine_excludes_others:
  assumes "build_week_tables_from_excel_bytes L wb s e = Inr t"
  shows "(\<forall>x\<in>set (actions_consistent t). termine x \<longrightarrow> \<not> en_cours x \<and> \<not> reporte x)
       \<and> (\<forall>x\<in>set (actions_latest t). termine x \<longrightarrow> \<not> en_cours x \<and> \<not> reporte x)
       \<and> set (ended_actions t) \<inter> set (running_actions t) = {}
       \<and> set (ended_actions t) \<inter> set (postponed_actions t) = {}"
proof -
  from assms obtain daily where t: "t = tables_of daily" by (rule build_InrE)
  have c: "\<forall>x\<in>set (actions_consistent t). termine x \<longrightarrow> \<not> en_cours x \<and> \<not> reporte x"
    using rolled_exclusive [of _ daily] by (auto simp: t tables_of_simps)
  have l: "\<forall>x\<in>set (actions_latest t). termine x \<longrightarrow> \<not> en_cours x \<and> \<not> reporte x"
  proof
    fix x assume "x \<in> set (actions_latest t)"
    then obtain y where y: "y \<in> set (groupby_tail1 (sort_by_key_date (rolled_of daily)))"
      and x: "x = latest_of y"
      by (auto simp: t tables_of_simps)
    from y set_groupby_tail1 have "y \<in> set (sort_by_key_date (rolled_of daily))" by blast
    then have "y \<in> set (rolled_of daily)" by (simp add: sort_by_key_date_def)
    from rolled_exclusive [OF this] show "termine x \<longrightarrow> \<not> en_cours x \<and> \<not> reporte x"
      by (simp add: x)
  qed
  have d: "set (ended_actions t) \<inter> set (running_actions t) = {}"
    "set (ended_actions t) \<inter> set (postponed_actions t) = {}"
    by (auto simp: t tables_of_simps)
  from c l d show ?thesis by blast
qed

text \<open>
  The theorem on a workbook of two days: the action is in progress and postponed on
  day 1 and has all three flags on day 2, where only \<open>termine\<close> is left.
\<close>

theorem termine_excludes_others_witness:
  "build_week_tables_from_excel_bytes demo_lib wb_both 1 2 = Inr (tables_of daily_both)
   \<and> map (\<lambda>x. (termine x, en_cours x, reporte x)) (actions_latest (tables_of daily_both))
       = [(True, False, False)]
   \<and> length (ended_actions (tables_of daily_both)) = 1
   \<and> set (ended_actions (tables_of daily_both)) \<inter> set (running_actions (tables_of daily_both)) = {}
   \<and> set (ended_actions (tables_of daily_both)) \<inter> set (postponed_actions (tables_of daily_both)) = {}"
  using termine_excludes_others [OF both_build] both_build both_latest
  by simp

text \<open>
  Against the claim as stated: the first sheet of the same workbook alone. Its one action
  is in progress and postponed, keeps both final flags, and its row of \<open>actions_latest\<close>
  is in \<open>running_actions\<close> and in \<open>postponed_actions\<close>.
\<close>

theorem final_flags_overlap:
  "build_week_tables_from_excel_bytes demo_lib wb_both 1 1 = Inr (tables_of [hd daily_both])
   \<and> map (\<lambda>x. (termine x, en_cours x, reporte x)) (actions_consistent (tables_of [hd daily_both]))
       = [(False, True, True)]
   \<and> length (actions_latest (tables_of [hd daily_both])) = 1
   \<and> running_actions (tables_of [hd daily_both]) = actions_latest (tables_of [hd daily_both])
   \<and> postponed_actions (tables_of [hd daily_both]) = actions_latest (tables_of [hd daily_both])"
  by (simp only: both_build_first both_first simp_thms)

subsection \<open>C2: the number of transition events\<close>

text \<open>
  Claim C2, amended. Let the rows of key \<open>k\<close> in the daily table, in date order, be
  \<open>x1 # g\<close>. If all of them carry the same raw flags, the extractor emits for \<open>k\<close> no
  event when the three flags are false, and otherwise exactly one event, dated as the
  first row: the first row of a key is compared with all-false, so the first appearance
  of an action with a flag set is an event. If the rows are two, the first in progress
  only and the second finished, the extractor emits exactly two events: the first
  appearance, and the flip from in progress to finished.
\<close>

theorem transition_counts:
  assumes "build_week_tables_from_excel_bytes L wb s e = Inr t"
    and g: "filter (\<lambda>x. action_key x = k) (sort_by_key_date (actions_daily t)) = x1 # g"
  shows "((\<forall>x\<in>set (x1 # g). termine x = t0 \<and> en_cours x = e0 \<and> reporte x = r0) \<longrightarrow>
           filter (\<lambda>ev. action_key ev = k) (transitions t)
           = (if t0 \<or> e0 \<or> r0 then [first_event k (date_rapport x1) t0 e0 r0] else []))
       \<and> (g = [x2] \<and> \<not> termine x1 \<and> en_cours x1 \<and> \<not> reporte x1 \<and> termine x2 \<longrightarrow>
           filter (\<lambda>ev. action_key ev = k) (transitions t)
           = [\<lparr> action_key = k, date_rapport = date_rapport x1, termine = False, en_cours = True,
                reporte = False, change_desc = lit ''en_cours: False -> True'' \<rparr>,
              \<lparr> action_key = k, date_rapport = date_rapport x2, termine = True, en_cours = False,
                reporte = False,
                change_desc = lit ''termine: False -> True; en_cours: True -> False'' \<rparr>])"
proof -
  from assms(1) obtain daily where t: "t = tables_of daily" by (rule build_InrE)
  from g have g': "filter (\<lambda>x. action_key x = k) (sort_by_key_date daily) = x1 # g"
    by (simp add: t tables_of_simps)
  have ev: "filter (\<lambda>ev. action_key ev = k) (transitions t)
            = transitions_scan False False False (rollup_scan False (x1 # g))"
    by (simp only: t transitions_group g')
  have "x1 \<in> set (filter (\<lambda>x. action_key x = k) (sort_by_key_date daily))"
    by (simp only: g') simp
  then have k1: "action_key x1 = k" by simp
  have "x2 \<in> set (filter (\<lambda>x. action_key x = k) (sort_by_key_date daily))" if "g = [x2]"
    using that by (simp only: g') simp
  then have k2: "g = [x2] \<Longrightarrow> action_key x2 = k" by simp
  have steady: "filter (\<lambda>ev. action_key ev = k) (transitions t)
           = (if t0 \<or> e0 \<or> r0 then [first_event k (date_rapport x1) t0 e0 r0] else [])"
    if c: "\<forall>x\<in>set (x1 # g). termine x = t0 \<and> en_cours x = e0 \<and> reporte x = r0"
  proof -
    from c have "termine x1 = t0" "en_cours x1 = e0" "reporte x1 = r0" by simp_all
    then have "event_of (rolled_of_row x1 t0) False False False = first_event k (date_rapport x1) t0 e0 r0"
      by (simp add: event_of_def first_event_def k1)
    with steady_events [OF c] show ?thesis by (simp only: ev)
  qed
  have flip: "filter (\<lambda>ev. action_key ev = k) (transitions t)
           = [\<lparr> action_key = k, date_rapport = date_rapport x1, termine = False, en_cours = True,
                reporte = False, change_desc = lit ''en_cours: False -> True'' \<rparr>,
              \<lparr> action_key = k, date_rapport = date_rapport x2, termine = True, en_cours = False,
                reporte = False,
                change_desc = lit ''termine: False -> True; en_cours: True -> False'' \<rparr>]"
    if "g = [x2] \<and> \<not> termine x1 \<and> en_cours x1 \<and> \<not> reporte x1 \<and> termine x2"
    using that k1 k2 by (auto simp add: ev event_of_def desc_values)
  from steady flip show ?thesis by blast
qed

text \<open>
  The theorem on three workbooks of two days for one action: in progress on both days
  (one event), all flags false on both days (no event), in progress then finished (two
  events).
\<close>

theorem transition_counts_witness:
  "build_week_tables_from_excel_bytes demo_lib wb_steady 1 2 = Inr (tables_of daily_steady)
   \<and> filter (\<lambda>ev. action_key ev = demo_key demo_lib ''A'') (transitions (tables_of daily_steady))
       = [first_event (demo_key demo_lib ''A'') (Some 1) False True False]
   \<and> build_week_tables_from_excel_bytes demo_lib wb_idle 1 2 = Inr (tables_of daily_idle)
   \<and> filter (\<lambda>ev. action_key ev = demo_key demo_lib ''A'') (transitions (tables_of daily_idle)) = []
   \<and> build_week_tables_from_excel_bytes demo_lib wb_flip 1 2 = Inr (tables_of daily_flip)
   \<and> map change_desc
        (filter (\<lambda>ev. action_key ev = demo_key demo_lib ''A'') (transitions (tables_of daily_flip)))
       = [lit ''en_cours: False -> True'', lit ''termine: False -> True; en_cours: True -> False'']"
  using
    transition_counts [OF steady_build, of "demo_key demo_lib ''A''" "hd daily_steady" "tl daily_steady"
      False True False]
    transition_counts [OF idle_build, of "demo_key demo_lib ''A''" "hd daily_idle" "tl daily_idle"
      False False False]
    transition_counts [OF flip_build, of "demo_key demo_lib ''A''" "daily_flip ! 0" "tl daily_flip"
      False False False "daily_flip ! 1"]
    steady_build idle_build flip_build
  unfolding single_key_rows
  by (simp add: daily_steady_def daily_idle_def daily_flip_def)

text \<open>
  Against the claim as stated: the action in progress on both days has an event, for its
  first appearance; the action in progress on day 1 and finished on day 2 has two.
\<close>

theorem initial_appearance_event:
  "build_week_tables_from_excel_bytes demo_lib wb_steady 1 2 = Inr (tables_of daily_steady)
   \<and> map (\<lambda>x. (termine x, en_cours x, reporte x)) (actions_daily (tables_of daily_steady))
       = [(False, True, False), (False, True, False)]
   \<and> map change_desc (transitions (tables_of daily_steady)) = [lit ''en_cours: False -> True'']
   \<and> build_week_tables_from_excel_bytes demo_lib wb_flip 1 2 = Inr (tables_of daily_flip)
   \<and> map (\<lambda>x. (termine x, en_cours x, reporte x)) (actions_daily (tables_of daily_flip))
       = [(False, True, False), (True, False, False)]
   \<and> map change_desc (transitions (tables_of daily_flip))
       = [lit ''en_cours: False -> True'', lit ''termine: False -> True; en_cours: True -> False'']"
  by (simp add: steady_build flip_build tables_of_simps(1) raw_flags steady_transitions flip_transitions)

subsection \<open>C3: the check of the sheet range\<close>

text \<open>
  Claim C3, amended. A range with \<open>start < 1\<close> or \<open>end\<close> greater than the number of sheets
  fails with the range error, whatever the sheets hold. A range with \<open>end < start\<close> that
  passes these two tests is not refused by the check: the cleaning step returns no frame
  and no date, without error, and the run then fails with the error of an empty
  selection, "No usable sheets in the selected range".
\<close>

theorem range_check:
  "(s < 1 \<or> int (length wb) < e \<longrightarrow>
      clean_week_sheets_from_bytes L wb s e = Inl (InvalidSheetRange s e (length wb))
      \<and> build_week_tables_from_excel_bytes L wb s e = Inl (InvalidSheetRange s e (length wb)))
   \<and> (1 \<le> s \<and> e \<le> int (length wb) \<and> e < s \<longrightarrow>
      clean_week_sheets_from_bytes L wb s e = Inr ([], [])
      \<and> build_week_tables_from_excel_bytes L wb s e = Inl NoUsableSheets)"
proof -
  have a: "clean_week_sheets_from_bytes L wb s e = Inl (InvalidSheetRange s e (length wb))"
    if "s < 1 \<or> int (length wb) < e"
    using that by (auto simp add: clean_week_sheets_from_bytes_def Let_def)
  have b: "clean_week_sheets_from_bytes L wb s e = Inr ([], [])"
    if "1 \<le> s \<and> e \<le> int (length wb) \<and> e < s"
    using that by (simp add: clean_week_sheets_from_bytes_def Let_def empty_range)
  show ?thesis
    using a b by (auto simp add: build_week_tables_from_excel_bytes_def)
qed

text \<open>
  The theorem on a workbook of two sheets, for the ranges 0-2, 1-3, 3-1 and 2-1, and on a
  workbook whose one sheet cannot be parsed: the range 1-2 is refused with the range
  error, where the range 1-1 fails on the sheet.
\<close>

theorem range_check_witness:
  "build_week_tables_from_excel_bytes demo_lib wb_flip 0 2 = Inl (InvalidSheetRange 0 2 2)
   \<and> build_week_tables_from_excel_bytes demo_lib wb_flip 1 3 = Inl (InvalidSheetRange 1 3 2)
   \<and> build_week_tables_from_excel_bytes demo_lib wb_flip 3 1 = Inl NoUsableSheets
   \<and> build_week_tables_from_excel_bytes demo_lib wb_flip 2 1 = Inl NoUsableSheets
   \<and> build_week_tables_from_excel_bytes demo_lib wb_short 1 2 = Inl (InvalidSheetRange 1 2 1)
   \<and> build_week_tables_from_excel_bytes demo_lib wb_short 1 1 = Inl IndexError"
  using range_check [of 0 wb_flip 2 demo_lib] range_check [of 1 wb_flip 3 demo_lib]
    range_check [of 3 wb_flip 1 demo_lib] range_check [of 2 wb_flip 1 demo_lib]
    range_check [of 1 wb_short 2 demo_lib]
  by (simp add: length_wb_flip short_fails)

text \<open>
  Against the claim as stated: on a workbook of two sheets the range 2-1 passes the check;
  the cleaning step succeeds with nothing and the run fails with another error than the
  range error.
\<close>

theorem reversed_range_unchecked:
  "clean_week_sheets_from_bytes demo_lib wb_flip 2 1 = Inr ([], [])
   \<and> build_week_tables_from_excel_bytes demo_lib wb_flip 2 1 = Inl NoUsableSheets
   \<and> build_week_tables_from_excel_bytes demo_lib wb_flip 2 1 \<noteq> Inl (InvalidSheetRange 2 1 2)"
  by (simp add: build_week_tables_from_excel_bytes_def clean_week_sheets_from_bytes_def
      length_wb_flip empty_range)

subsection \<open>C4: a finished action stays finished\<close>

text \<open>
  Claim C4. In the tables of every run that succeeds, the rows of \<open>actions_consistent\<close>
  for any key \<open>k\<close> come in ascending date order (no date last) and their \<open>termine\<close> column,
  which is \<open>termine_final\<close>, stays true once it is true; so for two rows of one key, the
  later in date is finished if the earlier is; and a row that is finished is neither in
  progress nor postponed.
\<close>

theorem termine_latched:
  assumes "build_week_tables_from_excel_bytes L wb s e = Inr t"
  shows "sorted (map (\<lambda>x. date_key (date_rapport x))
           (filter (\<lambda>x. action_key x = k) (actions_consistent t)))
       \<and> latched (map termine (filter (\<lambda>x. action_key x = k) (actions_consistent t)))
       \<and> (\<forall>x\<in>set (actions_consistent t). \<forall>y\<in>set (actions_consistent t).
             action_key x = action_key y \<and> termine x
             \<and> date_key (date_rapport x) < date_key (date_rapport y) \<longrightarrow> termine y)
       \<and> (\<forall>x\<in>set (actions_consistent t). termine x \<longrightarrow> \<not> en_cours x \<and> \<not> reporte x)"
proof -
  from assms obtain daily where t: "t = tables_of daily" by (rule build_InrE)
  have h: "filter (\<lambda>x. action_key x = k) (actions_consistent t)
           = map consistent_of (rollup_scan False (filter (\<lambda>x. action_key x = k) (sort_by_key_date daily)))"
    for k
    by (simp only: t tables_of_simps consistent_group)
  have dates: "sorted (map (\<lambda>x. date_key (date_rapport x))
      (filter (\<lambda>x. action_key x = k) (actions_consistent t)))" for k
  proof -
    let ?g = "filter (\<lambda>x. action_key x = k) (sort_by_key_date daily)"
    have "map (\<lambda>x. date_key (date_rapport x)) (map consistent_of (rollup_scan False ?g))
          = map date_key (map date_rapport (rollup_scan False ?g))"
      by (simp add: comp_def)
    also have "\<dots> = map (\<lambda>x. date_key (date_rapport x)) ?g"
      by (simp only: rollup_scan_keys) (simp add: comp_def)
    finally show ?thesis
      using sorted_filter_key_date [of k daily] by (simp only: h)
  qed
  have latch: "latched (map termine (filter (\<lambda>x. action_key x = k) (actions_consistent t)))" for k
  proof -
    let ?g = "filter (\<lambda>x. action_key x = k) (sort_by_key_date daily)"
    have "map termine (map consistent_of (rollup_scan False ?g))
          = map termine_final (rollup_scan False ?g)"
      by (simp add: comp_def)
    then show ?thesis by (simp only: h rollup_scan_keys latched_cummax_from)
  qed
  have later: "termine y"
    if x: "x \<in> set (actions_consistent t)" and y: "y \<in> set (actions_consistent t)"
      and key: "action_key x = action_key y" and tx: "termine x"
      and lt: "date_key (date_rapport x) < date_key (date_rapport y)" for x y
  proof -
    let ?g = "filter (\<lambda>z. action_key z = action_key x) (actions_consistent t)"
    from x have "x \<in> set ?g" by simp
    then obtain i where i: "i < length ?g" "?g ! i = x" unfolding in_set_conv_nth by blast
    from y key have "y \<in> set ?g" by simp
    then obtain j where j: "j < length ?g" "?g ! j = y" unfolding in_set_conv_nth by blast
    have "i \<le> j"
    proof (rule ccontr)
      assume "\<not> i \<le> j"
      then have "j \<le> i" by simp
      with dates [of "action_key x"] i(1)
      have "map (\<lambda>x. date_key (date_rapport x)) ?g ! j \<le> map (\<lambda>x. date_key (date_rapport x)) ?g ! i"
        by (intro sorted_nth_mono) simp_all
      with i j lt show False by simp
    qed
    with latched_nth [OF latch [of "action_key x"], of i j] i j tx show ?thesis by simp
  qed
  have excl: "\<forall>x\<in>set (actions_consistent t). termine x \<longrightarrow> \<not> en_cours x \<and> \<not> reporte x"
    using rolled_exclusive [of _ daily] by (auto simp: t tables_of_simps)
  from dates latch later excl show ?thesis by blast
qed

text \<open>
  The theorem on a workbook of two days, the action in progress on day 1 and finished on
  day 2.
\<close>

theorem termine_latched_witness:
  "build_week_tables_from_excel_bytes demo_lib wb_flip 1 2 = Inr (tables_of daily_flip)
   \<and> map termine (actions_consistent (tables_of daily_flip)) = [False, True]
   \<and> map en_cours (actions_consistent (tables_of daily_flip)) = [True, False]
   \<and> latched (map termine (filter (\<lambda>x. action_key x = demo_key demo_lib ''A'')
        (actions_consistent (tables_of daily_flip))))"
  using termine_latched [OF flip_build, of "demo_key demo_lib ''A''"] flip_build flip_consistent
  by simp

subsection \<open>C5: the key is a function of the descriptive fields\<close>



subsection \<open>C6: the sentinel row\<close>

text \<open>
  Claim C6. In a sheet whose header (the fifth row) has a zone column, a data row \<open>p\<close>
  whose zone is PREVISION once accents are stripped and the text is put in upper case
  ends the sheet: with any rows \<open>pre\<close> before it and any rows \<open>post\<close> after it, the
  sheet is cleaned as if it held the rows \<open>pre\<close> only. \<open>pre\<close> may be empty, the sentinel
  then being the first data row.
\<close>

theorem prevision_cut:
  assumes "length hdr = 5"
    and "lit ''champ_zone'' \<in> set (norm_cols L (hdr ! 4))"
    and "strip_col L (cell_at (norm_cols L (hdr ! 4)) p (lit ''champ_zone'')) = lit ''PREVISION''"
  shows "clean_sheet L \<lparr> sheet_name = n, date_cell = d, grid = hdr @ pre @ p # post \<rparr>
       = clean_sheet L \<lparr> sheet_name = n, date_cell = d, grid = hdr @ pre \<rparr>"
proof -
  let ?cols = "norm_cols L (hdr ! 4)"
  let ?notna = "\<lambda>r. cell_at ?cols r (lit ''champ_zone'') \<noteq> NaN"
  let ?Q = "\<lambda>r. \<not> is_prevision L ?cols r"
  from assms(3) have p: "\<not> ?Q p" by (simp add: is_prevision_def)
  from assms(3) strip_col_NaN [of L] have np: "?notna p" by auto
  have cut: "takeWhile ?Q (filter ?notna pre @ p # filter ?notna post)
      = takeWhile ?Q (filter ?notna pre)"
    using p by (rule takeWhile_stop)
  show ?thesis
    using assms(1,2) np
    by (simp add: clean_sheet_def Let_def nth_append cut_takeWhile cut clean_row_def [abs_def])
qed

text \<open>
  The theorem on a sheet with one action, then the sentinel written with its accent and
  in lower case, then another action: only the first action is left; and on a sheet that
  starts with the sentinel: nothing is left.
\<close>

theorem prevision_cut_witness:
  "clean_sheet demo_lib (demo_sheet ''S1'' (Some 1)
       [demo_row ''A'' False True False False, sentinel_row, demo_row ''B'' False True False False])
     = Inr (Some [demo_fact demo_lib ''S1'' (Some 1) ''A'' False True False False])
   \<and> clean_sheet demo_lib (demo_sheet ''S1'' (Some 1)
       [sentinel_row, demo_row ''B'' False True False False])
     = Inr (Some [])"
  using
    prevision_cut [of "[blank_row, blank_row, blank_row, blank_row, demo_header]" demo_lib
      sentinel_row "lit ''S1''" "Some 1" "[demo_row ''A'' False True False False]"
      "[demo_row ''B'' False True False False]"]
    prevision_cut [of "[blank_row, blank_row, blank_row, blank_row, demo_header]" demo_lib
      sentinel_row "lit ''S1''" "Some 1" "[]" "[demo_row ''B'' False True False False]"]
    sentinel_strip
    sheet_one_A [of demo_lib "''S1''" "Some 1" False True False False]
    sheet_none [of demo_lib "''S1''" "Some 1"]
  by (simp add: demo_sheet_def demo_norm_cols mem_demo_cols)

subsection \<open>C7: the downtime table\<close>

text \<open>
  Claim C7. In the tables of every run that succeeds, \<open>equipment_downtime\<close> is the daily
  table restricted to the rows out of service, in the same order and with repetitions;
  so for every key it holds one row per daily row of the key that is out of service.
\<close>

theorem downtime_rows:
  assumes "build_week_tables_from_excel_bytes L wb s e = Inr t"
  shows "equipment_downtime t = filter indisponible (actions_daily t)
       \<and> filter (\<lambda>x. action_key x = k) (equipment_downtime t)
         = filter indisponible (filter (\<lambda>x. action_key x = k) (actions_daily t))"
proof -
  from assms obtain daily where t: "t = tables_of daily" by (rule build_InrE)
  show ?thesis by (simp add: t tables_of_simps) (rule filter_cong, auto)
qed

text \<open>
  The theorem on a workbook of three days: an action out of service on days 1 and 3, and
  on day 2 another action only. The downtime table has two rows, of days 1 and 3.
\<close>

theorem downtime_rows_witness:
  "build_week_tables_from_excel_bytes demo_lib wb_down 1 3 = Inr (tables_of daily_down)
   \<and> actions_daily (tables_of daily_down) = daily_down
   \<and> equipment_downtime (tables_of daily_down) = [daily_down ! 0, daily_down ! 2]
   \<and> map date_rapport (equipment_downtime (tables_of daily_down)) = [Some 1, Some 3]
   \<and> map action_key (equipment_downtime (tables_of daily_down))
       = [demo_key demo_lib ''A'', demo_key demo_lib ''A'']"
  using downtime_rows [OF down_build] down_build
  by (simp add: tables_of_simps(1) daily_down_def)

subsection \<open>C8: runs with nothing usable\<close>

text \<open>
  Claim C8. When the cleaning step succeeds and leaves no row, or only rows without a
  date, the run fails: with the error of an empty selection if no sheet gave a frame,
  else with the error of missing dates. In particular a run over a valid range whose
  sheets all lack the zone column fails with the error of an empty selection.
\<close>

theorem empty_result_fails:
  "(clean_week_sheets_from_bytes L wb s e = Inr (dfs, ds)
      \<and> (concat dfs = [] \<or> list_all (\<lambda>x. date_rapport x = None) (concat dfs)) \<longrightarrow>
      build_week_tables_from_excel_bytes L wb s e = Inl (if dfs = [] then NoUsableSheets else NoDates))
   \<and> (1 \<le> s \<and> e \<le> int (length wb)
      \<and> (\<forall>sh\<in>set (sheets_in_range wb s e).
            4 < length (grid sh) \<and> lit ''champ_zone'' \<notin> set (norm_cols L (grid sh ! 4))) \<longrightarrow>
      build_week_tables_from_excel_bytes L wb s e = Inl NoUsableSheets)"
proof -
  have a: "build_week_tables_from_excel_bytes L wb s e = Inl (if dfs = [] then NoUsableSheets else NoDates)"
    if "clean_week_sheets_from_bytes L wb s e = Inr (dfs, ds)"
      and "concat dfs = [] \<or> list_all (\<lambda>x. date_rapport x = None) (concat dfs)"
    using that by (auto simp add: build_week_tables_from_excel_bytes_def Let_def simp del: concat_eq_Nil_conv)
  have b: "build_week_tables_from_excel_bytes L wb s e = Inl NoUsableSheets"
    if "1 \<le> s" "e \<le> int (length wb)"
      and "\<forall>sh\<in>set (sheets_in_range wb s e).
            4 < length (grid sh) \<and> lit ''champ_zone'' \<notin> set (norm_cols L (grid sh ! 4))"
    using that clean_loop_skipped [OF that(3)]
    by (simp add: build_week_tables_from_excel_bytes_def clean_week_sheets_from_bytes_def)
  from a b show ?thesis by blast
qed

text \<open>
  The theorem on three workbooks of one sheet: a header without zone column, a sheet
  without data row, a sheet without report date.
\<close>

theorem empty_result_fails_witness:
  "build_week_tables_from_excel_bytes demo_lib wb_nozone 1 1 = Inl NoUsableSheets
   \<and> clean_week_sheets_from_bytes demo_lib wb_blank 1 1 = Inr ([[]], [Some 1])
   \<and> build_week_tables_from_excel_bytes demo_lib wb_blank 1 1 = Inl NoDates
   \<and> clean_week_sheets_from_bytes demo_lib wb_undated 1 1
       = Inr ([[demo_fact demo_lib ''S1'' None ''A'' False True False False]], [None])
   \<and> build_week_tables_from_excel_bytes demo_lib wb_undated 1 1 = Inl NoDates"
  using
    empty_result_fails [of demo_lib wb_nozone 1 1 "[]" "[]"]
    empty_result_fails [of demo_lib wb_blank 1 1 "[[]]" "[Some 1]"]
    empty_result_fails [of demo_lib wb_undated 1 1
      "[[demo_fact demo_lib ''S1'' None ''A'' False True False False]]" "[None]"]
    nozone_sheets undated_clean
  by simp

subsection \<open>C10: the separator of the key is not escaped\<close>

text \<open>
  Claim C10. Two rows whose descriptive fields differ get the same key, with no collision
  of the digest: a sheet with the rows of zone \<open>a||b\<close>, platform \<open>c\<close> and of zone \<open>a\<close>,
  platform \<open>b||c\<close> is cleaned into two rows with different zones and platforms and the
  same payload \<open>a||b||c||||||||||\<close>, hence the same key, whatever the library and the
  digest are.
\<close>

theorem separator_collision:
  "clean_sheet L collide_sheet
     = Inr (Some [clean_row L collide_sheet key_cols collide_row1,
                  clean_row L collide_sheet key_cols collide_row2])
   \<and> champ_zone (clean_row L collide_sheet key_cols collide_row1) = Some (lit ''a||b'')
   \<and> plateforme_sous_zone (clean_row L collide_sheet key_cols collide_row1) = Some (lit ''c'')
   \<and> champ_zone (clean_row L collide_sheet key_cols collide_row2) = Some (lit ''a'')
   \<and> plateforme_sous_zone (clean_row L collide_sheet key_cols collide_row2) = Some (lit ''b||c'')
   \<and> desc_fields (clean_row L collide_sheet key_cols collide_row1)
       \<noteq> desc_fields (clean_row L collide_sheet key_cols collide_row2)
   \<and> action_payload L (text_of L key_cols collide_row1) = lit ''a||b||c||||||||||''
   \<and> action_payload L (text_of L key_cols collide_row2) = lit ''a||b||c||||||||||''
   \<and> action_key (clean_row L collide_sheet key_cols collide_row1)
       = action_key (clean_row L collide_sheet key_cols collide_row2)"
  by (simp add: collide_clean)
    (simp add: clean_row_def desc_fields_def text_collide action_key_of_def payload_collide)

end
